theory Spec2Isabelle
  imports Main "HOL-Library.Word"
begin

section \<open>JavaScript strings and the built-ins the script calls\<close>

text \<open>
  A JavaScript string is a sequence of 16-bit code units. Literals of the script are
  ASCII apart from one emoji, so \<open>str\<close> turns an ASCII literal into code units.
\<close>

type_synonym jsstr = "16 word list"

definition str :: "string \<Rightarrow> jsstr" where
  "str s = map of_char s"

text \<open>
  \<^verbatim>\<open>String.prototype.trim\<close> strips, at both ends, the code units of ECMAScript's
  WhiteSpace and LineTerminator productions.
\<close>

definition isWhiteSpace :: "16 word \<Rightarrow> bool" where
  "isWhiteSpace c \<longleftrightarrow>
     c \<in> {0x9, 0xA, 0xB, 0xC, 0xD, 0x20, 0xA0, 0x1680, 0x2028, 0x2029, 0x202F, 0x205F,
          0x3000, 0xFEFF}
     \<or> (0x2000 \<le> c \<and> c \<le> 0x200A)"

definition trim :: "jsstr \<Rightarrow> jsstr" where
  "trim s = rev (dropWhile isWhiteSpace (rev (dropWhile isWhiteSpace s)))"

text \<open>
  \<^verbatim>\<open>encodeURIComponent\<close>: the unreserved code units \<^verbatim>\<open>A-Z a-z 0-9 - _ . ! ~ * ' ( )\<close>
  are kept, every other code point is written as the percent-escaped bytes of its UTF-8
  encoding, and a surrogate that is not part of a pair makes the call throw a URIError
  (the value \<open>None\<close> here).
\<close>

definition uriUnreserved :: "16 word \<Rightarrow> bool" where
  "uriUnreserved c \<longleftrightarrow>
     (0x41 \<le> c \<and> c \<le> 0x5A) \<or> (0x61 \<le> c \<and> c \<le> 0x7A) \<or> (0x30 \<le> c \<and> c \<le> 0x39)
     \<or> c \<in> {0x2D, 0x5F, 0x2E, 0x21, 0x7E, 0x2A, 0x27, 0x28, 0x29}"

definition hexDigit :: "nat \<Rightarrow> 16 word" where
  "hexDigit n = str ''0123456789ABCDEF'' ! (n mod 16)"

definition percent :: "nat \<Rightarrow> jsstr" where
  "percent b = [0x25, hexDigit (b div 16), hexDigit (b mod 16)]"

definition utf8 :: "nat \<Rightarrow> nat list" where
  "utf8 cp =
     (if cp < 0x80 then [cp]
      else if cp < 0x800 then [0xC0 + cp div 64, 0x80 + cp mod 64]
      else if cp < 0x10000 then
        [0xE0 + cp div 4096, 0x80 + (cp div 64) mod 64, 0x80 + cp mod 64]
      else
        [0xF0 + cp div 262144, 0x80 + (cp div 4096) mod 64, 0x80 + (cp div 64) mod 64,
         0x80 + cp mod 64])"

definition escapeCodePoint :: "nat \<Rightarrow> jsstr" where
  "escapeCodePoint cp = concat (map percent (utf8 cp))"

definition isHighSurrogate :: "16 word \<Rightarrow> bool" where
  "isHighSurrogate c \<longleftrightarrow> 0xD800 \<le> c \<and> c \<le> 0xDBFF"

definition isLowSurrogate :: "16 word \<Rightarrow> bool" where
  "isLowSurrogate c \<longleftrightarrow> 0xDC00 \<le> c \<and> c \<le> 0xDFFF"

fun encodeURIComponent :: "jsstr \<Rightarrow> jsstr option" where
  "encodeURIComponent [] = Some []"
| "encodeURIComponent [c] =
     (if uriUnreserved c then Some [c]
      else if isLowSurrogate c \<or> isHighSurrogate c then None
      else Some (escapeCodePoint (unat c)))"
| "encodeURIComponent (c # d # ds) =
     (if uriUnreserved c then map_option ((#) c) (encodeURIComponent (d # ds))
      else if isLowSurrogate c then None
      else if isHighSurrogate c then
        (if isLowSurrogate d then
           map_option
             ((@) (escapeCodePoint (0x10000 + (unat c - 0xD800) * 0x400 + (unat d - 0xDC00))))
             (encodeURIComponent ds)
         else None)
      else map_option ((@) (escapeCodePoint (unat c))) (encodeURIComponent (d # ds)))"

section \<open>The browser's reading of markup\<close>

text \<open>
  Assigning a string to \<^verbatim>\<open>innerHTML\<close> makes the browser parse it as an HTML fragment and
  replace the element's children with the result. The part of the HTML parsing algorithm
  modelled here is: the normalisation of newlines, the tokenizer states for text, tags
  and attributes, and the construction of the tree for a short list of elements when
  every end tag closes the element that is open. Everything else is \<open>None\<close>, outside the
  model: a character reference (\<^verbatim>\<open>&\<close>), the NUL character, a comment or declaration
  (\<^verbatim>\<open><!\<close>, \<^verbatim>\<open><?\<close>), an element not in the list, and the nestings the parser repairs
  (a block or heading start tag while a \<^verbatim>\<open>p\<close> is open, a heading inside a heading, a
  button inside a button, an end tag that does not match the open element).
\<close>

fun normalize_newlines :: "jsstr \<Rightarrow> jsstr" where
  "normalize_newlines [] = []"
| "normalize_newlines [c] = (if c = 0xD then [0xA] else [c])"
| "normalize_newlines (c # d # ds) =
     (if c = 0xD then 0xA # (if d = 0xA then normalize_newlines ds else normalize_newlines (d # ds))
      else c # normalize_newlines (d # ds))"

text \<open>
  The tokenizer. A tag under construction is \<open>Tag e n as\<close>: an end tag when \<open>e\<close>, its
  name, and its attributes so far. An attribute whose name the tag already has is
  dropped; names are put in lower case. Where the standard reconsumes a character in
  another state, the step function of that state is applied to it.
\<close>

datatype token = Character "16 word" | StartTag jsstr "(jsstr \<times> jsstr) list" | EndTag jsstr

datatype tag = Tag bool jsstr "(jsstr \<times> jsstr) list"

datatype tokenizer_state =
    Data
  | TagOpen
  | EndTagOpen
  | TagName bool jsstr
  | BeforeAttributeName tag
  | AttributeName tag jsstr
  | AfterAttributeName tag jsstr
  | BeforeAttributeValue tag jsstr
  | AttributeValueDoubleQuoted tag jsstr jsstr
  | AttributeValueSingleQuoted tag jsstr jsstr
  | AttributeValueUnquoted tag jsstr jsstr
  | AfterAttributeValueQuoted tag
  | SelfClosingStartTag tag

definition isTagSpace :: "16 word \<Rightarrow> bool" where
  "isTagSpace c \<longleftrightarrow> c = 0x9 \<or> c = 0xA \<or> c = 0xC \<or> c = 0x20"

definition isAsciiUpper :: "16 word \<Rightarrow> bool" where
  "isAsciiUpper c \<longleftrightarrow> 0x41 \<le> c \<and> c \<le> 0x5A"

definition isAsciiAlpha :: "16 word \<Rightarrow> bool" where
  "isAsciiAlpha c \<longleftrightarrow> isAsciiUpper c \<or> (0x61 \<le> c \<and> c \<le> 0x7A)"

definition toAsciiLower :: "16 word \<Rightarrow> 16 word" where
  "toAsciiLower c = (if isAsciiUpper c then c + 0x20 else c)"

fun add_attribute :: "tag \<Rightarrow> jsstr \<Rightarrow> jsstr \<Rightarrow> tag" where
  "add_attribute (Tag e n as) k v =
     (if map_of as k = None then Tag e n (as @ [(k, v)]) else Tag e n as)"

fun emit :: "tag \<Rightarrow> token" where
  "emit (Tag e n as) = (if e then EndTag n else StartTag n as)"

definition data_step :: "16 word \<Rightarrow> (token list \<times> tokenizer_state) option" where
  "data_step c =
     (if c = 0x26 \<or> c = 0 then None
      else if c = 0x3C then Some ([], TagOpen)
      else Some ([Character c], Data))"

definition attribute_name_step ::
    "tag \<Rightarrow> jsstr \<Rightarrow> 16 word \<Rightarrow> (token list \<times> tokenizer_state) option" where
  "attribute_name_step t k c =
     (if isTagSpace c then Some ([], AfterAttributeName t k)
      else if c = 0x2F then Some ([], SelfClosingStartTag (add_attribute t k []))
      else if c = 0x3E then Some ([emit (add_attribute t k [])], Data)
      else if c = 0x3D then Some ([], BeforeAttributeValue t k)
      else if c = 0 then None
      else Some ([], AttributeName t (k @ [toAsciiLower c])))"

definition before_attribute_name_step ::
    "tag \<Rightarrow> 16 word \<Rightarrow> (token list \<times> tokenizer_state) option" where
  "before_attribute_name_step t c =
     (if isTagSpace c then Some ([], BeforeAttributeName t)
      else if c = 0x2F then Some ([], SelfClosingStartTag t)
      else if c = 0x3E then Some ([emit t], Data)
      else if c = 0x3D then Some ([], AttributeName t [0x3D])
      else attribute_name_step t [] c)"

definition attribute_value_unquoted_step ::
    "tag \<Rightarrow> jsstr \<Rightarrow> jsstr \<Rightarrow> 16 word \<Rightarrow> (token list \<times> tokenizer_state) option" where
  "attribute_value_unquoted_step t k v c =
     (if isTagSpace c then Some ([], BeforeAttributeName (add_attribute t k v))
      else if c = 0x26 \<or> c = 0 then None
      else if c = 0x3E then Some ([emit (add_attribute t k v)], Data)
      else Some ([], AttributeValueUnquoted t k (v @ [c])))"

fun step :: "tokenizer_state \<Rightarrow> 16 word \<Rightarrow> (token list \<times> tokenizer_state) option" where
  "step Data c = data_step c"
| "step TagOpen c =
     (if c = 0x21 \<or> c = 0x3F then None
      else if c = 0x2F then Some ([], EndTagOpen)
      else if isAsciiAlpha c then Some ([], TagName False [toAsciiLower c])
      else map_option (\<lambda>(ts, s). (Character 0x3C # ts, s)) (data_step c))"
| "step EndTagOpen c =
     (if isAsciiAlpha c then Some ([], TagName True [toAsciiLower c])
      else if c = 0x3E then Some ([], Data)
      else None)"
| "step (TagName e n) c =
     (if isTagSpace c then Some ([], BeforeAttributeName (Tag e n []))
      else if c = 0x2F then Some ([], SelfClosingStartTag (Tag e n []))
      else if c = 0x3E then Some ([emit (Tag e n [])], Data)
      else if c = 0 then None
      else Some ([], TagName e (n @ [toAsciiLower c])))"
| "step (BeforeAttributeName t) c = before_attribute_name_step t c"
| "step (AttributeName t k) c = attribute_name_step t k c"
| "step (AfterAttributeName t k) c =
     (if isTagSpace c then Some ([], AfterAttributeName t k)
      else if c = 0x2F then Some ([], SelfClosingStartTag (add_attribute t k []))
      else if c = 0x3D then Some ([], BeforeAttributeValue t k)
      else if c = 0x3E then Some ([emit (add_attribute t k [])], Data)
      else attribute_name_step (add_attribute t k []) [] c)"
| "step (BeforeAttributeValue t k) c =
     (if isTagSpace c then Some ([], BeforeAttributeValue t k)
      else if c = 0x22 then Some ([], AttributeValueDoubleQuoted t k [])
      else if c = 0x27 then Some ([], AttributeValueSingleQuoted t k [])
      else if c = 0x3E then Some ([emit (add_attribute t k [])], Data)
      else attribute_value_unquoted_step t k [] c)"
| "step (AttributeValueDoubleQuoted t k v) c =
     (if c = 0x22 then Some ([], AfterAttributeValueQuoted (add_attribute t k v))
      else if c = 0x26 \<or> c = 0 then None
      else Some ([], AttributeValueDoubleQuoted t k (v @ [c])))"
| "step (AttributeValueSingleQuoted t k v) c =
     (if c = 0x27 then Some ([], AfterAttributeValueQuoted (add_attribute t k v))
      else if c = 0x26 \<or> c = 0 then None
      else Some ([], AttributeValueSingleQuoted t k (v @ [c])))"
| "step (AttributeValueUnquoted t k v) c = attribute_value_unquoted_step t k v c"
| "step (AfterAttributeValueQuoted t) c =
     (if isTagSpace c then Some ([], BeforeAttributeName t)
      else if c = 0x2F then Some ([], SelfClosingStartTag t)
      else if c = 0x3E then Some ([emit t], Data)
      else before_attribute_name_step t c)"
| "step (SelfClosingStartTag t) c =
     (if c = 0x3E then Some ([emit t], Data)
      else before_attribute_name_step t c)"

fun end_of_file :: "tokenizer_state \<Rightarrow> token list" where
  "end_of_file TagOpen = [Character 0x3C]"
| "end_of_file EndTagOpen = [Character 0x3C, Character 0x2F]"
| "end_of_file s = []"

fun tokenize :: "tokenizer_state \<Rightarrow> jsstr \<Rightarrow> token list option" where
  "tokenize s [] = Some (end_of_file s)"
| "tokenize s (c # cs) =
     (case step s c of
        None \<Rightarrow> None
      | Some (ts, s') \<Rightarrow> map_option ((@) ts) (tokenize s' cs))"

text \<open>
  The tree. An open element is its name, its attributes and its children so far, the
  last one first; \<open>root\<close> holds the children of the fragment in the same way. A character
  joins the text node before it. At the end of the input the open elements are closed.
\<close>

datatype node = Text jsstr | Element jsstr "(jsstr \<times> jsstr) list" "node list"

type_synonym open_element = "jsstr \<times> (jsstr \<times> jsstr) list \<times> node list"

fun insert_character :: "16 word \<Rightarrow> node list \<Rightarrow> node list" where
  "insert_character c (Text t # ch) = Text (t @ [c]) # ch"
| "insert_character c ch = Text [c] # ch"

definition headings :: "jsstr list" where
  "headings = [str ''h1'', str ''h2'', str ''h3'', str ''h4'', str ''h5'', str ''h6'']"

definition modelled_elements :: "jsstr list" where
  "modelled_elements =
     headings @ [str ''div'', str ''p'', str ''span'', str ''button'',
                 str ''b'', str ''i'', str ''u'', str ''em'', str ''strong'']"

definition insertable :: "jsstr \<Rightarrow> open_element list \<Rightarrow> bool" where
  "insertable n st \<longleftrightarrow>
     n \<in> set modelled_elements \<and>
     (if n \<in> set (str ''div'' # str ''p'' # headings) then str ''p'' \<notin> set (map fst st)
      else True) \<and>
     (if n \<in> set headings
      then (case st of [] \<Rightarrow> True | (m, as, ch) # st' \<Rightarrow> m \<notin> set headings)
      else True) \<and>
     (if n = str ''button'' then str ''button'' \<notin> set (map fst st) else True)"

fun close_all :: "node list \<Rightarrow> open_element list \<Rightarrow> node list" where
  "close_all root [] = rev root"
| "close_all root [(n, as, ch)] = rev (Element n as (rev ch) # root)"
| "close_all root ((n, as, ch) # (n', as', ch') # st) =
     close_all root ((n', as', Element n as (rev ch) # ch') # st)"

fun build :: "node list \<Rightarrow> open_element list \<Rightarrow> token list \<Rightarrow> node list option" where
  "build root st [] = Some (close_all root st)"
| "build root [] (Character c # ts) = build (insert_character c root) [] ts"
| "build root ((n, as, ch) # st) (Character c # ts) = build root ((n, as, insert_character c ch) # st) ts"
| "build root st (StartTag n as # ts) =
     (if insertable n st then build root ((n, as, []) # st) ts else None)"
| "build root [] (EndTag n # ts) = None"
| "build root [(m, as, ch)] (EndTag n # ts) =
     (if m = n then build (Element m as (rev ch) # root) [] ts else None)"
| "build root ((m, as, ch) # (m', as', ch') # st) (EndTag n # ts) =
     (if m = n then build root ((m', as', Element m as (rev ch) # ch') # st) ts else None)"

definition parse_fragment :: "jsstr \<Rightarrow> node list option" where
  "parse_fragment markup =
     (case tokenize Data (normalize_newlines markup) of
        None \<Rightarrow> None
      | Some ts \<Rightarrow> build [] [] ts)"

section \<open>The filter syntax of the remote service\<close>

text \<open>
  The list endpoint reads its \<^verbatim>\<open>q\<close> parameter as a filter expression in which a string
  value is written between single quotes; inside the quotes a backslash escapes the
  character after it, so that \<^verbatim>\<open>\'\<close> is a quote of the value and \<^verbatim>\<open>\\\<close> a backslash.
  \<open>quoted_literal\<close> reads such a value from the text that follows the opening quote: it
  gives the value and the text left after the closing quote, and \<open>None\<close> when no
  unescaped quote closes the value. The code units \<open>0x27\<close> and \<open>0x5C\<close> are the single quote
  and the backslash.
\<close>

fun quoted_literal :: "jsstr \<Rightarrow> (jsstr \<times> jsstr) option" where
  "quoted_literal [] = None"
| "quoted_literal [c] = (if c = 0x27 then Some ([], []) else None)"
| "quoted_literal (c # d # ds) =
     (if c = 0x27 then Some ([], d # ds)
      else if c = 0x5C then map_option (apfst ((#) d)) (quoted_literal ds)
      else map_option (apfst ((#) c)) (quoted_literal (d # ds)))"

section \<open>Data model\<close>

text \<open>
  \<^verbatim>\<open>CONFIG\<close> is imported from \<^verbatim>\<open>./config.js\<close>; its two members are parameters of the
  model.
\<close>

record config =
  BASE_URL :: jsstr
  ACCESS_TOKEN :: jsstr

text \<open>
  A File Record as the list request asks for it (\<^verbatim>\<open>fields=files(id,name,mimeType)\<close>):
  the members \<^verbatim>\<open>id\<close>, \<^verbatim>\<open>name\<close> and \<^verbatim>\<open>mimeType\<close>. The decoded body of a list
  response is an object whose member \<^verbatim>\<open>files\<close> is the list of records.
\<close>

record drive_file =
  file_id :: jsstr
  file_name :: jsstr
  file_mimeType :: jsstr

record search_body =
  files :: "drive_file list"

text \<open>The \<^verbatim>\<open>File\<close> object of the file picker: \<^verbatim>\<open>name\<close>, \<^verbatim>\<open>type\<close> and its bytes.\<close>

record blob =
  blob_name :: jsstr
  blob_type :: jsstr
  blob_bytes :: "8 word list"

text \<open>
  Exceptions. The script itself only throws \<^verbatim>\<open>new Error(message)\<close>; the platform can
  throw the other three (a rejected \<^verbatim>\<open>fetch\<close>, an undecodable body, a malformed URI).
\<close>

datatype exn = Error jsstr | TypeError jsstr | SyntaxError jsstr | URIError jsstr

fun message :: "exn \<Rightarrow> jsstr" where
  "message (Error m) = m"
| "message (TypeError m) = m"
| "message (SyntaxError m) = m"
| "message (URIError m) = m"

text \<open>
  A request as \<^verbatim>\<open>fetch(url, options)\<close> receives it. The body of the update request is
  the text \<^verbatim>\<open>JSON.stringify\<close> makes of an object with string members; it is kept as the
  list of these members.
\<close>

datatype http_method = GET | POST | PATCH | DELETE

datatype payload = NoBody | FileBody blob | JSON_stringify "(jsstr \<times> jsstr) list"

record request =
  url :: jsstr
  http_method :: http_method
  headers :: "(jsstr \<times> jsstr) list"
  body :: payload

text \<open>
  What \<^verbatim>\<open>await fetch(...)\<close> gives: the promise is rejected, or it resolves to a response
  with its \<^verbatim>\<open>ok\<close> flag and the settlement of \<^verbatim>\<open>response.json()\<close>.
\<close>

record 'a response =
  ok :: bool
  json :: "exn + 'a"

datatype 'a fetched = Rejected exn | Resolved "'a response"

text \<open>
  The environment of the script: the remote service, which answers the \<open>n\<close>-th request
  of a run, and the message the engine gives a URIError. The answers are typed by the
  endpoint: a body of the list endpoint that decodes has the member \<^verbatim>\<open>files\<close>, a list of
  File Records, and one of the media upload endpoint is a File Record; the script reads no
  body of a single item.
\<close>

record browser =
  uri_malformed :: jsstr
  list_endpoint :: "nat \<Rightarrow> request \<Rightarrow> search_body fetched"
  upload_endpoint :: "nat \<Rightarrow> request \<Rightarrow> drive_file fetched"
  item_endpoint :: "nat \<Rightarrow> request \<Rightarrow> unit fetched"

text \<open>
  The page. Every element the script binds at load time is a group of fields; a card is
  the \<^verbatim>\<open>div\<close> that \<^verbatim>\<open>displayFiles\<close> creates, with the markup assigned to its
  \<^verbatim>\<open>innerHTML\<close>. A \<open>button\<close> is the \<^verbatim>\<open>dataset\<close> of a button of a card, and
  \<open>listeners\<close> holds, in document order, the \<^verbatim>\<open>onclick\<close> handler of every button of the
  grid that has one (\<open>None\<close> when the markup of a card is outside the model of the
  parser). \<open>timers\<close> holds the delays of the callbacks given to \<^verbatim>\<open>setTimeout\<close>,
  \<open>unhandled\<close> the rejections of promises nobody awaits, and \<open>trace\<close> the calls of
  \<^verbatim>\<open>fetch\<close>, \<^verbatim>\<open>showError\<close> and \<^verbatim>\<open>toggleLoading\<close> in the order they happen.
\<close>

datatype event = Fetched request | Notified jsstr | Loading bool

record button =
  data_id :: jsstr
  data_name :: jsstr

datatype onclick = Edit_onclick button | Delete_onclick button

record card =
  className :: jsstr
  innerHTML :: jsstr

record world =
  searchInput_value :: jsstr
  fileInput_files :: "blob list"
  resultsGrid :: "card list"
  errorBox_innerText :: jsstr
  errorBox_hidden :: bool
  loader_hidden :: bool
  searchBtn_disabled :: bool
  uploadBtn_disabled :: bool
  listeners :: "onclick list option"
  timers :: "nat list"
  unhandled :: "exn list"
  trace :: "event list"

fun requests :: "event list \<Rightarrow> request list" where
  "requests [] = []"
| "requests (Fetched r # es) = r # requests es"
| "requests (e # es) = requests es"

fun notices :: "event list \<Rightarrow> jsstr list" where
  "notices [] = []"
| "notices (Notified m # es) = m # notices es"
| "notices (e # es) = notices es"

section \<open>Control flow\<close>

text \<open>
  A piece of script is a function from the page to its completion (\<open>Inl\<close> a thrown
  exception) and the page afterwards. \<open>try_catch_finally\<close> is the statement of that name:
  the handler runs on a throw of the block, the finalizer runs in every case, and a throw
  of the finalizer replaces the completion. \<open>detach\<close> is a call of an async function whose
  promise is dropped: a rejection is nobody's to catch.
\<close>

type_synonym 'a js = "world \<Rightarrow> (exn + 'a) \<times> world"

definition return_js :: "'a \<Rightarrow> 'a js" where
  "return_js v w = (Inr v, w)"

definition throw_js :: "exn \<Rightarrow> 'a js" where
  "throw_js e w = (Inl e, w)"

definition void :: "(world \<Rightarrow> world) \<Rightarrow> unit js" where
  "void f w = (Inr (), f w)"

definition bind_js :: "'a js \<Rightarrow> ('a \<Rightarrow> 'b js) \<Rightarrow> 'b js" where
  "bind_js m f w = (case m w of (Inl e, w') \<Rightarrow> (Inl e, w') | (Inr v, w') \<Rightarrow> f v w')"

definition try_catch_finally :: "'a js \<Rightarrow> (exn \<Rightarrow> 'a js) \<Rightarrow> unit js \<Rightarrow> 'a js" where
  "try_catch_finally block handler finalizer w =
     (case block w of (c1, w1) \<Rightarrow>
        (case (case c1 of Inl e \<Rightarrow> handler e w1 | Inr v \<Rightarrow> (Inr v, w1)) of (c2, w2) \<Rightarrow>
           (case finalizer w2 of (Inl e, w3) \<Rightarrow> (Inl e, w3) | (Inr u, w3) \<Rightarrow> (c2, w3))))"

definition detach :: "unit js \<Rightarrow> world \<Rightarrow> world" where
  "detach m w =
     (case m w of (Inl e, w') \<Rightarrow> w'\<lparr>unhandled := unhandled w' @ [e]\<rparr> | (Inr u, w') \<Rightarrow> w')"

text \<open>
  \<^verbatim>\<open>fetch\<close> issues the request (it joins the trace) and the service's answer to it, the
  \<open>n\<close>-th of the run, is what the \<^verbatim>\<open>await\<close> yields. Every request settles: the script
  sets no timeout of its own, and a request that stays pending for ever is outside the
  model.
\<close>

definition fetch :: "(nat \<Rightarrow> request \<Rightarrow> 'a fetched) \<Rightarrow> request \<Rightarrow> world \<Rightarrow> 'a fetched \<times> world" where
  "fetch endpoint req w =
     (endpoint (length (requests (trace w))) req, w\<lparr>trace := trace w @ [Fetched req]\<rparr>)"

section \<open>Transport: the four API functions\<close>

text \<open>
  The four requests, as the object literals handed to \<^verbatim>\<open>fetch\<close>. A request with no
  \<^verbatim>\<open>method\<close> option is a GET.
\<close>

definition searchRequest :: "config \<Rightarrow> jsstr \<Rightarrow> request" where
  "searchRequest CONFIG query =
     \<lparr>url = BASE_URL CONFIG @ str ''?q='' @ query @ str ''&fields=files(id,name,mimeType)'',
      http_method = GET,
      headers = [(str ''Authorization'', str ''Bearer '' @ ACCESS_TOKEN CONFIG)],
      body = NoBody\<rparr>"

definition uploadRequest :: "config \<Rightarrow> blob \<Rightarrow> request" where
  "uploadRequest CONFIG file =
     \<lparr>url = str ''https://www.googleapis.com/upload/drive/v3/files?uploadType=media'',
      http_method = POST,
      headers = [(str ''Authorization'', str ''Bearer '' @ ACCESS_TOKEN CONFIG),
                 (str ''Content-Type'', blob_type file)],
      body = FileBody file\<rparr>"

definition updateRequest :: "config \<Rightarrow> jsstr \<Rightarrow> jsstr \<Rightarrow> request" where
  "updateRequest CONFIG fileId newName =
     \<lparr>url = BASE_URL CONFIG @ str ''/'' @ fileId,
      http_method = PATCH,
      headers = [(str ''Authorization'', str ''Bearer '' @ ACCESS_TOKEN CONFIG),
                 (str ''Content-Type'', str ''application/json'')],
      body = JSON_stringify [(str ''name'', newName)]\<rparr>"

definition deleteRequest :: "config \<Rightarrow> jsstr \<Rightarrow> request" where
  "deleteRequest CONFIG fileId =
     \<lparr>url = BASE_URL CONFIG @ str ''/'' @ fileId,
      http_method = DELETE,
      headers = [(str ''Authorization'', str ''Bearer '' @ ACCESS_TOKEN CONFIG)],
      body = NoBody\<rparr>"

text \<open>
  \<^verbatim>\<open>apiSearchFiles\<close>: the filter is the template with the term put between two single
  quotes (code unit \<open>0x27\<close>), then encoded as a whole.
\<close>

definition apiSearchFiles :: "config \<Rightarrow> browser \<Rightarrow> jsstr \<Rightarrow> search_body js" where
  "apiSearchFiles CONFIG env searchTerm w =
     (case encodeURIComponent
             (str ''name contains '' @ [0x27] @ searchTerm @ [0x27] @ str '' and trashed = false'') of
        None \<Rightarrow> (Inl (URIError (uri_malformed env)), w)
      | Some query \<Rightarrow>
          (case fetch (list_endpoint env) (searchRequest CONFIG query) w of
             (Rejected e, w') \<Rightarrow> (Inl e, w')
           | (Resolved response, w') \<Rightarrow>
               if \<not> ok response then (Inl (Error (str ''Failed to fetch files.'')), w')
               else (json response, w')))"

definition apiUploadFile :: "config \<Rightarrow> browser \<Rightarrow> blob \<Rightarrow> drive_file js" where
  "apiUploadFile CONFIG env file w =
     (case fetch (upload_endpoint env) (uploadRequest CONFIG file) w of
        (Rejected e, w') \<Rightarrow> (Inl e, w')
      | (Resolved response, w') \<Rightarrow>
          if \<not> ok response then (Inl (Error (str ''Upload failed.'')), w')
          else (json response, w'))"

definition apiUpdateFile :: "config \<Rightarrow> browser \<Rightarrow> jsstr \<Rightarrow> jsstr \<Rightarrow> unit js" where
  "apiUpdateFile CONFIG env fileId newName w =
     (case fetch (item_endpoint env) (updateRequest CONFIG fileId newName) w of
        (Rejected e, w') \<Rightarrow> (Inl e, w')
      | (Resolved response, w') \<Rightarrow>
          if \<not> ok response then (Inl (Error (str ''Update failed.'')), w')
          else (Inr (), w'))"

definition apiDeleteFile :: "config \<Rightarrow> browser \<Rightarrow> jsstr \<Rightarrow> unit js" where
  "apiDeleteFile CONFIG env fileId w =
     (case fetch (item_endpoint env) (deleteRequest CONFIG fileId) w of
        (Rejected e, w') \<Rightarrow> (Inl e, w')
      | (Resolved response, w') \<Rightarrow>
          if \<not> ok response then (Inl (Error (str ''Delete failed.'')), w')
          else (Inr (), w'))"

section \<open>Presentation\<close>

definition showError :: "jsstr \<Rightarrow> world \<Rightarrow> world" where
  "showError msg w =
     w\<lparr>errorBox_innerText := msg,
       errorBox_hidden := False,
       timers := timers w @ [5000],
       trace := trace w @ [Notified msg]\<rparr>"

definition toggleLoading :: "bool \<Rightarrow> world \<Rightarrow> world" where
  "toggleLoading isLoading w =
     w\<lparr>loader_hidden := \<not> isLoading,
       searchBtn_disabled := isLoading,
       uploadBtn_disabled := isLoading,
       trace := trace w @ [Loading isLoading]\<rparr>"

text \<open>
  The template literal assigned to \<^verbatim>\<open>card.innerHTML\<close>, line by line: a line feed is the
  code unit \<open>0xA\<close> and the page emoji U+1F4C4 is the surrogate pair \<open>0xD83D 0xDCC4\<close>.
\<close>

definition card_innerHTML :: "drive_file \<Rightarrow> jsstr" where
  \<open>card_innerHTML file =
     [0xA] @ str ''            <h3>'' @ [0xD83D, 0xDCC4] @ str '' '' @ file_name file
           @ str ''</h3>'' @
     [0xA] @ str ''            <p>ID: '' @ file_id file @ str ''</p>'' @
     [0xA] @ str ''            <div class="card-actions">'' @
     [0xA] @ str ''                <button class="edit-btn" data-id="'' @ file_id file
           @ str ''" data-name="'' @ file_name file @ str ''">Rename</button>'' @
     [0xA] @ str ''                <button class="delete-btn" data-id="'' @ file_id file
           @ str ''">Delete</button>'' @
     [0xA] @ str ''            </div>'' @
     [0xA] @ str ''        ''\<close>

text \<open>
  What the script asks of the parsed cards. \<open>elements\<close> lists the elements of a tree in
  document order with their attributes; \<open>class_list\<close> splits the \<^verbatim>\<open>class\<close> attribute at
  white space, which is what a class selector matches against; \<open>dataset\<close> reads
  \<^verbatim>\<open>data-id\<close> and \<^verbatim>\<open>data-name\<close>, and a missing attribute reads as \<^verbatim>\<open>undefined\<close>,
  which the URL template of the API functions writes as the text \<^verbatim>\<open>undefined\<close>.
\<close>

fun elements :: "node \<Rightarrow> (jsstr \<times> (jsstr \<times> jsstr) list) list" where
  "elements (Text t) = []"
| "elements (Element n as ch) = (n, as) # concat (map elements ch)"

fun split_on_whitespace :: "jsstr \<Rightarrow> jsstr \<Rightarrow> jsstr list" where
  "split_on_whitespace cur [] = (if cur = [] then [] else [cur])"
| "split_on_whitespace cur (c # cs) =
     (if c = 0x9 \<or> c = 0xA \<or> c = 0xC \<or> c = 0xD \<or> c = 0x20
      then (if cur = [] then [] else [cur]) @ split_on_whitespace [] cs
      else split_on_whitespace (cur @ [c]) cs)"

definition class_list :: "(jsstr \<times> jsstr) list \<Rightarrow> jsstr list" where
  "class_list as =
     (case map_of as (str ''class'') of None \<Rightarrow> [] | Some v \<Rightarrow> split_on_whitespace [] v)"

definition dataset :: "(jsstr \<times> jsstr) list \<Rightarrow> button" where
  "dataset as =
     \<lparr>data_id = (case map_of as (str ''data-id'') of None \<Rightarrow> str ''undefined'' | Some v \<Rightarrow> v),
      data_name = (case map_of as (str ''data-name'') of None \<Rightarrow> str ''undefined'' | Some v \<Rightarrow> v)\<rparr>"

text \<open>
  \<^verbatim>\<open>setupCardListeners\<close>: every element of class \<^verbatim>\<open>delete-btn\<close> gets the delete
  handler as its \<^verbatim>\<open>onclick\<close>, then every element of class \<^verbatim>\<open>edit-btn\<close> gets the edit
  handler, which replaces the first on an element of both classes. Each handler reads the
  \<^verbatim>\<open>dataset\<close> of its own button. The document searched is the grid: a card with its
  class and the tree its markup parses to. The static page the script is loaded in is not
  part of the repository's files; its elements outside the grid are taken to carry neither
  class.
\<close>

definition onclick_of :: "jsstr \<times> (jsstr \<times> jsstr) list \<Rightarrow> onclick option" where
  "onclick_of el =
     (if str ''edit-btn'' \<in> set (class_list (snd el)) then Some (Edit_onclick (dataset (snd el)))
      else if str ''delete-btn'' \<in> set (class_list (snd el))
      then Some (Delete_onclick (dataset (snd el)))
      else None)"

definition card_elements :: "card \<Rightarrow> (jsstr \<times> (jsstr \<times> jsstr) list) list option" where
  "card_elements c =
     map_option (\<lambda>children. elements (Element (str ''div'') [(str ''class'', className c)] children))
       (parse_fragment (innerHTML c))"

definition setupCardListeners :: "world \<Rightarrow> world" where
  "setupCardListeners w =
     w\<lparr>listeners :=
         map_option (\<lambda>els. List.map_filter onclick_of (concat els))
           (those (map card_elements (resultsGrid w)))\<rparr>"

text \<open>
  \<^verbatim>\<open>displayFiles\<close>: emptying the grid removes the old cards with their buttons and
  handlers; the \<^verbatim>\<open>forEach\<close> appends one card per record.
\<close>

definition displayFiles :: "drive_file list \<Rightarrow> world \<Rightarrow> world" where
  "displayFiles file_list w =
     (let w0 = w\<lparr>resultsGrid := [], listeners := Some []\<rparr> in
      if length file_list = 0 then showError (str ''No results found.'') w0
      else
        setupCardListeners
          (foldl (\<lambda>w' file.
                    w'\<lparr>resultsGrid := resultsGrid w' @
                         [\<lparr>className = str ''file-card'', innerHTML = card_innerHTML file\<rparr>]\<rparr>)
             w0 file_list))"

section \<open>Controller\<close>

text \<open>
  \<^verbatim>\<open>handleSearch\<close> in two parts, cut at its \<^verbatim>\<open>await\<close>. The first part runs when the
  function is called: the guard, \<^verbatim>\<open>toggleLoading(true)\<close> and the call of
  \<^verbatim>\<open>apiSearchFiles\<close>, which issues the request; it gives \<open>None\<close> when the guard returned
  and otherwise the settlement the \<^verbatim>\<open>await\<close> will yield. The second part is the rest of
  the \<^verbatim>\<open>try\<close> statement. A caller that awaits nothing (the two card handlers) goes on
  between the two parts.
\<close>

definition handleSearch_begin :: "config \<Rightarrow> browser \<Rightarrow> (exn + search_body) option js" where
  "handleSearch_begin CONFIG env w =
     (let term = trim (searchInput_value w) in
      if term = [] then (Inr None, showError (str ''Please enter a search term.'') w)
      else
        (case apiSearchFiles CONFIG env term (toggleLoading True w) of
           (awaited, w') \<Rightarrow> (Inr (Some awaited), w')))"

definition handleSearch_resume :: "exn + search_body \<Rightarrow> unit js" where
  "handleSearch_resume awaited =
     try_catch_finally
       (case awaited of Inl err \<Rightarrow> throw_js err | Inr data \<Rightarrow> void (displayFiles (files data)))
       (\<lambda>err. void (showError (message err)))
       (void (toggleLoading False))"

definition handleSearch :: "config \<Rightarrow> browser \<Rightarrow> unit js" where
  "handleSearch CONFIG env =
     bind_js (handleSearch_begin CONFIG env)
       (\<lambda>pending. case pending of None \<Rightarrow> return_js () | Some awaited \<Rightarrow> handleSearch_resume awaited)"

text \<open>
  \<^verbatim>\<open>handleUpload\<close>: \<^verbatim>\<open>fileInput.files[0]\<close> is undefined on an empty selection, and
  \<^verbatim>\<open>fileInput.value = ''\<close> empties the selection.
\<close>

definition handleUpload :: "config \<Rightarrow> browser \<Rightarrow> unit js" where
  "handleUpload CONFIG env w =
     (case fileInput_files w of
        [] \<Rightarrow> (Inr (), showError (str ''Select a file first.'') w)
      | file # others \<Rightarrow>
          try_catch_finally
            (bind_js (apiUploadFile CONFIG env file) (\<lambda>uploadedFile.
             bind_js (apiUpdateFile CONFIG env (file_id uploadedFile) (blob_name file)) (\<lambda>u.
             bind_js (void (showError (str ''File uploaded successfully!''))) (\<lambda>u.
             void (\<lambda>w'. w'\<lparr>fileInput_files := []\<rparr>)))))
            (\<lambda>err. void (showError (message err)))
            (void (toggleLoading False))
            (toggleLoading True w))"

text \<open>
  The two handlers of \<^verbatim>\<open>setupCardListeners\<close>. \<open>btn\<close> is the \<^verbatim>\<open>dataset\<close> of the button
  clicked, \<open>confirmed\<close> the answer of \<^verbatim>\<open>confirm\<close>, and \<open>answer\<close> the answer of \<^verbatim>\<open>prompt\<close>
  (\<open>None\<close> when the dialog is dismissed). \<^verbatim>\<open>handleSearch()\<close> is called and not awaited:
  its first part runs inside the \<^verbatim>\<open>try\<close> block, the \<^verbatim>\<open>finally\<close> block follows, and the
  second part runs detached after the handler.
\<close>

definition deleteBtn_onclick :: "config \<Rightarrow> browser \<Rightarrow> button \<Rightarrow> bool \<Rightarrow> unit js" where
  "deleteBtn_onclick CONFIG env btn confirmed w =
     (if confirmed then
        (case try_catch_finally
                (bind_js (apiDeleteFile CONFIG env (data_id btn)) (\<lambda>u. handleSearch_begin CONFIG env))
                (\<lambda>err. bind_js (void (showError (message err))) (\<lambda>u. return_js None))
                (void (toggleLoading False))
                (toggleLoading True w) of
           (Inl e, w') \<Rightarrow> (Inl e, w')
         | (Inr None, w') \<Rightarrow> (Inr (), w')
         | (Inr (Some awaited), w') \<Rightarrow> (Inr (), detach (handleSearch_resume awaited) w'))
      else (Inr (), w))"

definition editBtn_onclick :: "config \<Rightarrow> browser \<Rightarrow> button \<Rightarrow> jsstr option \<Rightarrow> unit js" where
  "editBtn_onclick CONFIG env btn answer w =
     (case answer of
        None \<Rightarrow> (Inr (), w)
      | Some newName \<Rightarrow>
          if newName \<noteq> [] \<and> trim newName \<noteq> [] then
            (case try_catch_finally
                    (bind_js (apiUpdateFile CONFIG env (data_id btn) (trim newName))
                       (\<lambda>u. handleSearch_begin CONFIG env))
                    (\<lambda>err. bind_js (void (showError (message err))) (\<lambda>u. return_js None))
                    (void (toggleLoading False))
                    (toggleLoading True w) of
               (Inl e, w') \<Rightarrow> (Inl e, w')
             | (Inr None, w') \<Rightarrow> (Inr (), w')
             | (Inr (Some awaited), w') \<Rightarrow> (Inr (), detach (handleSearch_resume awaited) w'))
          else (Inr (), w))"

text \<open>A click on a button that has a handler runs the handler with the button's dataset.\<close>

fun click :: "config \<Rightarrow> browser \<Rightarrow> onclick \<Rightarrow> bool \<Rightarrow> jsstr option \<Rightarrow> unit js" where
  "click CONFIG env (Delete_onclick btn) confirmed answer = deleteBtn_onclick CONFIG env btn confirmed"
| "click CONFIG env (Edit_onclick btn) confirmed answer = editBtn_onclick CONFIG env btn answer"

section \<open>A concrete page, configuration and service\<close>

text \<open>Concrete inputs on which the theorems below are instantiated.\<close>

definition example_config :: config where
  "example_config = \<lparr>BASE_URL = str ''https://www.googleapis.com/drive/v3/files'', ACCESS_TOKEN = str ''token''\<rparr>"

definition example_record :: drive_file where
  "example_record = \<lparr>file_id = str ''1'', file_name = str ''report.pdf'', file_mimeType = str ''application/pdf''\<rparr>"

definition example_blob :: blob where
  "example_blob = \<lparr>blob_name = str ''notes.txt'', blob_type = str ''text/plain'', blob_bytes = [0x68, 0x69]\<rparr>"

definition service_up :: browser where
  "service_up =
     \<lparr>uri_malformed = str ''URI malformed'',
      list_endpoint = (\<lambda>n req. Resolved \<lparr>ok = True, json = Inr \<lparr>files = [example_record]\<rparr>\<rparr>),
      upload_endpoint = (\<lambda>n req. Resolved \<lparr>ok = True,
         json = Inr \<lparr>file_id = str ''7'', file_name = str ''Untitled'', file_mimeType = str ''text/plain''\<rparr>\<rparr>),
      item_endpoint = (\<lambda>n req. Resolved \<lparr>ok = True, json = Inr ()\<rparr>)\<rparr>"

definition service_down :: browser where
  "service_down =
     \<lparr>uri_malformed = str ''URI malformed'',
      list_endpoint = (\<lambda>n req. Resolved \<lparr>ok = False, json = Inl (SyntaxError (str ''Unexpected token''))\<rparr>),
      upload_endpoint = (\<lambda>n req. Resolved \<lparr>ok = False, json = Inl (SyntaxError (str ''Unexpected token''))\<rparr>),
      item_endpoint = (\<lambda>n req. Resolved \<lparr>ok = False, json = Inr ()\<rparr>)\<rparr>"

definition example_page :: world where
  "example_page =
     \<lparr>searchInput_value = str '' report '',
      fileInput_files = [example_blob],
      resultsGrid = [\<lparr>className = str ''file-card'', innerHTML = str ''stale''\<rparr>],
      errorBox_innerText = [],
      errorBox_hidden = True,
      loader_hidden = True,
      searchBtn_disabled = False,
      uploadBtn_disabled = False,
      listeners = Some [],
      timers = [],
      unhandled = [],
      trace = []\<rparr>"


definition second_record :: drive_file where
  "second_record = \<lparr>file_id = str ''2'', file_name = str ''plan.txt'', file_mimeType = str ''text/plain''\<rparr>"

text \<open>
  A record whose identifier holds a double quote (code unit \<open>0x22\<close>), and one whose name
  holds a less-than sign that starts no tag.
\<close>

definition quote_record :: drive_file where
  "quote_record = \<lparr>file_id = [0x61, 0x22, 0x62], file_name = str ''x'', file_mimeType = str ''text/plain''\<rparr>"


section \<open>Auxiliary facts\<close>

text \<open>A string trims to the empty string exactly when all its code units are white space.\<close>

lemma trim_Nil_iff: "trim s = [] \<longleftrightarrow> (\<forall>c\<in>set s. isWhiteSpace c)"
proof -
  have "(\<forall>c\<in>set (dropWhile isWhiteSpace s). isWhiteSpace c) \<longleftrightarrow> dropWhile isWhiteSpace s = []"
  proof
    assume all: "\<forall>c\<in>set (dropWhile isWhiteSpace s). isWhiteSpace c"
    show "dropWhile isWhiteSpace s = []"
    proof (rule ccontr)
      assume ne: "dropWhile isWhiteSpace s \<noteq> []"
      then have "\<not> isWhiteSpace (hd (dropWhile isWhiteSpace s))"
        by (rule hd_dropWhile)
      moreover have "hd (dropWhile isWhiteSpace s) \<in> set (dropWhile isWhiteSpace s)"
        using ne by (rule hd_in_set)
      ultimately show False using all by blast
    qed
  next
    assume "dropWhile isWhiteSpace s = []"
    then show "\<forall>c\<in>set (dropWhile isWhiteSpace s). isWhiteSpace c"
      by (simp del: dropWhile_eq_Nil_conv)
  qed
  then show ?thesis
    by (simp add: trim_def dropWhile_eq_Nil_conv)
qed

lemma requests_append [simp]: "requests (xs @ ys) = requests xs @ requests ys"
  by (induction xs rule: requests.induct) simp_all

lemma notices_append [simp]: "notices (xs @ ys) = notices xs @ notices ys"
  by (induction xs rule: notices.induct) simp_all

section \<open>Guards of the controller\<close>

text \<open>
  C5. A search whose input field is empty or holds only white space trims to the empty
  term: the action issues no network call, shows the notice
  \<^verbatim>\<open>Please enter a search term.\<close> and completes normally.
\<close>

theorem search_blank_term:
  assumes "\<forall>c\<in>set (searchInput_value w). isWhiteSpace c"
  shows "trim (searchInput_value w) = [] \<and>
         fst (handleSearch CONFIG env w) = Inr () \<and>
         trace (snd (handleSearch CONFIG env w)) =
           trace w @ [Notified (str ''Please enter a search term.'')] \<and>
         requests (trace (snd (handleSearch CONFIG env w))) = requests (trace w) \<and>
         errorBox_innerText (snd (handleSearch CONFIG env w)) = str ''Please enter a search term.'' \<and>
         \<not> errorBox_hidden (snd (handleSearch CONFIG env w))"
proof -
  from assms have blank: "trim (searchInput_value w) = []"
    by (simp only: trim_Nil_iff)
  then show ?thesis
    by (simp add: handleSearch_def bind_js_def handleSearch_begin_def return_js_def showError_def)
qed

theorem search_blank_term_witness:
  "list_all isWhiteSpace
     (searchInput_value (example_page\<lparr>searchInput_value := [0x20, 0x9, 0xA0, 0x3000]\<rparr>)) \<and>
   trace (snd (handleSearch example_config service_up (example_page\<lparr>searchInput_value := [0x20, 0x9, 0xA0, 0x3000]\<rparr>)))
     = [Notified (str ''Please enter a search term.'')]"
proof -
  let ?w = "example_page\<lparr>searchInput_value := [0x20, 0x9, 0xA0, 0x3000]\<rparr>"
  have blank: "\<forall>c\<in>set (searchInput_value ?w). isWhiteSpace c"
    by (simp add: isWhiteSpace_def)
  have "trace ?w = []"
    by (simp add: example_page_def)
  with search_blank_term [OF blank, of example_config service_up] blank show ?thesis
    by (simp add: list_all_iff)
qed

text \<open>
  C7. An upload with no file selected issues no network call and notifies the user with
  \<^verbatim>\<open>Select a file first.\<close>
\<close>

theorem upload_nothing_selected:
  assumes "fileInput_files w = []"
  shows "fst (handleUpload CONFIG env w) = Inr () \<and>
         trace (snd (handleUpload CONFIG env w)) = trace w @ [Notified (str ''Select a file first.'')] \<and>
         requests (trace (snd (handleUpload CONFIG env w))) = requests (trace w) \<and>
         errorBox_innerText (snd (handleUpload CONFIG env w)) = str ''Select a file first.'' \<and>
         \<not> errorBox_hidden (snd (handleUpload CONFIG env w))"
  using assms by (simp add: handleUpload_def showError_def)

theorem upload_nothing_selected_witness:
  "fileInput_files (example_page\<lparr>fileInput_files := []\<rparr>) = [] \<and>
   trace (snd (handleUpload example_config service_up (example_page\<lparr>fileInput_files := []\<rparr>)))
     = [Notified (str ''Select a file first.'')]"
proof -
  let ?w = "example_page\<lparr>fileInput_files := []\<rparr>"
  have none: "fileInput_files ?w = []"
    by simp
  have "trace ?w = []"
    by (simp add: example_page_def)
  with upload_nothing_selected [OF none, of example_config service_up] none show ?thesis
    by simp
qed

text \<open>
  C6. A rename whose prompt is dismissed, or answered with an empty or white-space-only
  name, changes nothing: no network call is issued, so the record keeps its name, and the
  page is as it was.
\<close>

theorem rename_blank_name:
  assumes "answer = None \<or> (\<exists>newName. answer = Some newName \<and> (\<forall>c\<in>set newName. isWhiteSpace c))"
  shows "editBtn_onclick CONFIG env btn answer w = (Inr (), w)"
  using assms by (auto simp: editBtn_onclick_def trim_Nil_iff)

theorem rename_blank_name_witness:
  "list_all isWhiteSpace [0x20, 0xA] \<and>
   editBtn_onclick example_config service_up
     \<lparr>data_id = str ''1'', data_name = str ''report.pdf''\<rparr> None example_page
     = (Inr (), example_page) \<and>
   editBtn_onclick example_config service_up
     \<lparr>data_id = str ''1'', data_name = str ''report.pdf''\<rparr> (Some []) example_page
     = (Inr (), example_page) \<and>
   editBtn_onclick example_config service_up
     \<lparr>data_id = str ''1'', data_name = str ''report.pdf''\<rparr> (Some [0x20, 0xA]) example_page
     = (Inr (), example_page)"
proof -
  have ws: "\<forall>c\<in>set [0x20, 0xA :: 16 word]. isWhiteSpace c"
    by (simp add: isWhiteSpace_def)
  show ?thesis
    using rename_blank_name [of None] rename_blank_name [of "Some []"]
      rename_blank_name [of "Some [0x20, 0xA]"] ws
    by (simp add: list_all_iff)
qed

section \<open>Rendering\<close>

text \<open>What the \<^verbatim>\<open>forEach\<close> of \<^verbatim>\<open>displayFiles\<close> leaves in the grid, and what else it touches.\<close>

lemma forEach_appendChild:
  "foldl (\<lambda>w' file. w'\<lparr>resultsGrid := resultsGrid w' @ [mk file]\<rparr>) w0 fs
     = w0\<lparr>resultsGrid := resultsGrid w0 @ map mk fs\<rparr>"
  by (induction fs arbitrary: w0) simp_all

lemma setupCardListeners_fields [simp]:
  "searchInput_value (setupCardListeners w) = searchInput_value w"
  "fileInput_files (setupCardListeners w) = fileInput_files w"
  "resultsGrid (setupCardListeners w) = resultsGrid w"
  "errorBox_innerText (setupCardListeners w) = errorBox_innerText w"
  "errorBox_hidden (setupCardListeners w) = errorBox_hidden w"
  "loader_hidden (setupCardListeners w) = loader_hidden w"
  "searchBtn_disabled (setupCardListeners w) = searchBtn_disabled w"
  "uploadBtn_disabled (setupCardListeners w) = uploadBtn_disabled w"
  "timers (setupCardListeners w) = timers w"
  "unhandled (setupCardListeners w) = unhandled w"
  "trace (setupCardListeners w) = trace w"
  by (simp_all add: setupCardListeners_def)

lemma displayFiles_Nil:
  "displayFiles [] w =
     showError (str ''No results found.'') (w\<lparr>resultsGrid := [], listeners := Some []\<rparr>)"
  by (simp add: displayFiles_def)

lemma displayFiles_nonempty:
  "file_list \<noteq> [] \<Longrightarrow>
   displayFiles file_list w =
     setupCardListeners
       (w\<lparr>listeners := Some [],
          resultsGrid :=
            map (\<lambda>file. \<lparr>className = str ''file-card'', innerHTML = card_innerHTML file\<rparr>) file_list\<rparr>)"
  by (simp add: displayFiles_def forEach_appendChild)

lemma displayFiles_trace:
  "trace (displayFiles file_list w) =
     trace w @ (if file_list = [] then [Notified (str ''No results found.'')] else [])"
  by (cases "file_list = []") (simp_all add: displayFiles_Nil displayFiles_nonempty showError_def)

lemma displayFiles_busy:
  "loader_hidden (displayFiles file_list w) = loader_hidden w \<and>
   searchBtn_disabled (displayFiles file_list w) = searchBtn_disabled w \<and>
   uploadBtn_disabled (displayFiles file_list w) = uploadBtn_disabled w \<and>
   unhandled (displayFiles file_list w) = unhandled w \<and>
   fileInput_files (displayFiles file_list w) = fileInput_files w"
  by (cases "file_list = []") (simp_all add: displayFiles_Nil displayFiles_nonempty showError_def)

lemma displayFiles_card:
  assumes "i < length file_list"
  shows "resultsGrid (displayFiles file_list w) ! i =
           \<lparr>className = str ''file-card'', innerHTML = card_innerHTML (file_list ! i)\<rparr>"
proof -
  from assms have "file_list \<noteq> []"
    by auto
  with assms show ?thesis
    by (simp add: displayFiles_nonempty)
qed

section \<open>The parsed card\<close>

text \<open>
  How the browser reads a card whose name and identifier are free of the characters that
  mean something to the parser: plain text in the data state gives its characters as
  they are, a double-quoted attribute value runs to the next double quote, and a run of
  characters after a text node joins it.
\<close>

lemmas tokenizer_defs = data_step_def attribute_name_step_def before_attribute_name_step_def
  attribute_value_unquoted_step_def isTagSpace_def isAsciiUpper_def isAsciiAlpha_def toAsciiLower_def

lemmas tree_defs = insertable_def modelled_elements_def headings_def

lemma normalize_newlines_id: "0xD \<notin> set s \<Longrightarrow> normalize_newlines s = s"
  by (induction s rule: normalize_newlines.induct) auto

lemma tokenize_text:
  "\<forall>c\<in>set xs. c \<noteq> 0 \<and> c \<noteq> 0x26 \<and> c \<noteq> 0x3C \<Longrightarrow>
   tokenize Data (xs @ rest) = map_option ((@) (map Character xs)) (tokenize Data rest)"
proof (induction xs)
  case Nil
  show ?case
    by (simp add: option.map_ident)
next
  case (Cons c xs)
  then show ?case
    by (cases "tokenize Data rest") (simp_all add: data_step_def)
qed

lemma tokenize_value:
  "\<forall>c\<in>set v. c \<noteq> 0 \<and> c \<noteq> 0x22 \<and> c \<noteq> 0x26 \<Longrightarrow>
   tokenize (AttributeValueDoubleQuoted t k acc) (v @ rest) =
     tokenize (AttributeValueDoubleQuoted t k (acc @ v)) rest"
proof (induction v arbitrary: acc)
  case Nil
  show ?case by simp
next
  case (Cons c v)
  then show ?case
    by (cases "tokenize (AttributeValueDoubleQuoted t k (acc @ c # v)) rest") simp_all
qed

lemma build_text:
  "build root ((n, as, Text t # ch) # st) (map Character xs @ ts) =
     build root ((n, as, Text (t @ xs) # ch) # st) ts"
  by (induction xs arbitrary: t) simp_all

lemma card_parse:
  assumes "\<forall>c\<in>set (file_name file). c \<notin> {0, 0xD, 0x22, 0x26, 0x3C}"
    and "\<forall>c\<in>set (file_id file). c \<notin> {0, 0xD, 0x22, 0x26, 0x3C}"
  shows "parse_fragment (card_innerHTML file) =
     Some [Text ([0xA] @ str ''            ''),
           Element (str ''h3'') [] [Text ([0xD83D, 0xDCC4] @ str '' '' @ file_name file)],
           Text ([0xA] @ str ''            ''),
           Element (str ''p'') [] [Text (str ''ID: '' @ file_id file)],
           Text ([0xA] @ str ''            ''),
           Element (str ''div'') [(str ''class'', str ''card-actions'')]
             [Text ([0xA] @ str ''                ''),
              Element (str ''button'')
                [(str ''class'', str ''edit-btn''), (str ''data-id'', file_id file),
                 (str ''data-name'', file_name file)]
                [Text (str ''Rename'')],
              Text ([0xA] @ str ''                ''),
              Element (str ''button'')
                [(str ''class'', str ''delete-btn''), (str ''data-id'', file_id file)]
                [Text (str ''Delete'')],
              Text ([0xA] @ str ''            '')],
           Text ([0xA] @ str ''        '')]"
proof -
  have in_text: "\<forall>c\<in>set (file_name file). c \<noteq> 0 \<and> c \<noteq> 0x26 \<and> c \<noteq> 0x3C"
    "\<forall>c\<in>set (file_id file). c \<noteq> 0 \<and> c \<noteq> 0x26 \<and> c \<noteq> 0x3C"
    using assms by auto
  have in_value: "\<forall>c\<in>set (file_name file). c \<noteq> 0 \<and> c \<noteq> 0x22 \<and> c \<noteq> 0x26"
    "\<forall>c\<in>set (file_id file). c \<noteq> 0 \<and> c \<noteq> 0x22 \<and> c \<noteq> 0x26"
    using assms by auto
  have "0xD \<notin> set (file_name file)" "0xD \<notin> set (file_id file)"
    using assms by auto
  then have "0xD \<notin> set (card_innerHTML file)"
    by (simp add: card_innerHTML_def str_def)
  then have nl: "normalize_newlines (card_innerHTML file) = card_innerHTML file"
    by (rule normalize_newlines_id)
  show ?thesis
    unfolding parse_fragment_def nl
    by (simp add: card_innerHTML_def str_def tokenizer_defs tree_defs
        tokenize_text [OF in_text(1)] tokenize_text [OF in_text(2)]
        tokenize_value [OF in_value(1)] tokenize_value [OF in_value(2)] build_text)
qed

text \<open>The handler each element of a plain card gets, and the handlers of a grid of plain cards.\<close>

lemma map_filter_concat:
  "List.map_filter f (concat xss) = concat (map (List.map_filter f) xss)"
  by (induction xss) (simp_all add: map_filter_def)

lemma those_map_Some:
  "(\<And>x. x \<in> set xs \<Longrightarrow> f x = Some (g x)) \<Longrightarrow> those (map f xs) = Some (map g xs)"
  by (induction xs) simp_all

lemma onclick_of_edit:
  "onclick_of (n, [(str ''class'', str ''edit-btn''), (str ''data-id'', i), (str ''data-name'', m)])
     = Some (Edit_onclick \<lparr>data_id = i, data_name = m\<rparr>)"
  by (simp add: onclick_of_def class_list_def dataset_def str_def)

lemma onclick_of_delete:
  "onclick_of (n, [(str ''class'', str ''delete-btn''), (str ''data-id'', i)])
     = Some (Delete_onclick \<lparr>data_id = i, data_name = str ''undefined''\<rparr>)"
  by (simp add: onclick_of_def class_list_def dataset_def str_def)

lemma onclick_of_other:
  "onclick_of (n, []) = None"
  "onclick_of (n, [(str ''class'', str ''card-actions'')]) = None"
  "onclick_of (n, [(str ''class'', str ''file-card'')]) = None"
  by (simp_all add: onclick_of_def class_list_def str_def)

lemma plain_card_listeners:
  assumes "\<forall>c\<in>set (file_name file). c \<notin> {0, 0xD, 0x22, 0x26, 0x3C}"
    and "\<forall>c\<in>set (file_id file). c \<notin> {0, 0xD, 0x22, 0x26, 0x3C}"
  shows "map_option (List.map_filter onclick_of)
           (card_elements \<lparr>className = str ''file-card'', innerHTML = card_innerHTML file\<rparr>) =
         Some [Edit_onclick \<lparr>data_id = file_id file, data_name = file_name file\<rparr>,
               Delete_onclick \<lparr>data_id = file_id file, data_name = str ''undefined''\<rparr>]"
  by (simp add: card_elements_def card_parse [OF assms] map_filter_simps onclick_of_edit
      onclick_of_delete onclick_of_other)

lemma plain_listeners:
  assumes "\<forall>f\<in>set fs. \<forall>c\<in>set (file_name f) \<union> set (file_id f). c \<notin> {0, 0xD, 0x22, 0x26, 0x3C}"
  shows "listeners (setupCardListeners
           (w\<lparr>listeners := Some [],
              resultsGrid :=
                map (\<lambda>file. \<lparr>className = str ''file-card'', innerHTML = card_innerHTML file\<rparr>) fs\<rparr>))
         = Some (concat (map (\<lambda>f. [Edit_onclick \<lparr>data_id = file_id f, data_name = file_name f\<rparr>,
                                   Delete_onclick \<lparr>data_id = file_id f, data_name = str ''undefined''\<rparr>])
                          fs))"
proof -
  let ?mk = "\<lambda>file. \<lparr>className = str ''file-card'', innerHTML = card_innerHTML file\<rparr>"
  let ?two = "\<lambda>f. [Edit_onclick \<lparr>data_id = file_id f, data_name = file_name f\<rparr>,
                   Delete_onclick \<lparr>data_id = file_id f, data_name = str ''undefined''\<rparr>]"
  have each: "map_option (List.map_filter onclick_of) (card_elements (?mk f)) = Some (?two f)"
    if "f \<in> set fs" for f
    using assms that by (intro plain_card_listeners) auto
  then have parsed: "card_elements (?mk f) = Some (the (card_elements (?mk f)))"
    and handlers: "List.map_filter onclick_of (the (card_elements (?mk f))) = ?two f"
    if "f \<in> set fs" for f
    using that by (cases "card_elements (?mk f)"; fastforce)+
  have "those (map (\<lambda>f. card_elements (?mk f)) fs) = Some (map (\<lambda>f. the (card_elements (?mk f))) fs)"
    by (rule those_map_Some) (rule parsed)
  moreover have "concat (map (\<lambda>f. List.map_filter onclick_of (the (card_elements (?mk f)))) fs)
                 = concat (map ?two fs)"
    using handlers by (intro arg_cong [where f = concat] map_cong) simp_all
  ultimately show ?thesis
    by (simp add: setupCardListeners_def comp_def map_filter_concat)
qed

text \<open>
  C2. \<^verbatim>\<open>displayFiles\<close> first empties the grid, cards and handlers, whatever it held. On
  the empty list it shows the notice \<^verbatim>\<open>No results found.\<close> in the error box and the grid
  stays empty. On a non-empty list it shows no notice and the grid holds exactly one card
  per record, in the order of the list, each of class \<^verbatim>\<open>file-card\<close> with the template's
  markup for its record. When no name and no identifier holds a NUL, a carriage return, a
  double quote, an ampersand or a less-than sign, the browser reads the markup of the
  \<open>i\<close>-th card as the heading whose text is the emoji and the record's name, the
  paragraph whose text is \<^verbatim>\<open>ID: \<close> and the identifier, and the two buttons; and the
  handlers installed are, card by card, the edit handler on the Rename button, with the
  record's identifier and name as its dataset, and the delete handler on the Delete
  button, with the record's identifier. Without that condition the last part fails: in
  the card of the identifier \<^verbatim>\<open>a"b\<close> the attribute \<^verbatim>\<open>data-id\<close> ends at the quote, and
  both handlers are bound to \<^verbatim>\<open>a\<close>.
\<close>

theorem displayFiles_cards:
  \<open>resultsGrid (displayFiles [] w) = [] \<and>
   listeners (displayFiles [] w) = Some [] \<and>
   trace (displayFiles [] w) = trace w @ [Notified (str ''No results found.'')] \<and>
   errorBox_innerText (displayFiles [] w) = str ''No results found.'' \<and>
   \<not> errorBox_hidden (displayFiles [] w) \<and>
   (file_list \<noteq> [] \<longrightarrow>
      map className (resultsGrid (displayFiles file_list w)) =
        map (\<lambda>file. str ''file-card'') file_list \<and>
      map innerHTML (resultsGrid (displayFiles file_list w)) = map card_innerHTML file_list \<and>
      trace (displayFiles file_list w) = trace w \<and>
      errorBox_innerText (displayFiles file_list w) = errorBox_innerText w \<and>
      errorBox_hidden (displayFiles file_list w) = errorBox_hidden w) \<and>
   (file_list \<noteq> [] \<and>
    (\<forall>f\<in>set file_list.
       \<forall>c\<in>set (file_name f) \<union> set (file_id f). c \<notin> {0, 0xD, 0x22, 0x26, 0x3C}) \<longrightarrow>
      (\<forall>i<length file_list.
         parse_fragment (innerHTML (resultsGrid (displayFiles file_list w) ! i)) =
           Some [Text ([0xA] @ str ''            ''),
                 Element (str ''h3'') []
                   [Text ([0xD83D, 0xDCC4] @ str '' '' @ file_name (file_list ! i))],
                 Text ([0xA] @ str ''            ''),
                 Element (str ''p'') [] [Text (str ''ID: '' @ file_id (file_list ! i))],
                 Text ([0xA] @ str ''            ''),
                 Element (str ''div'') [(str ''class'', str ''card-actions'')]
                   [Text ([0xA] @ str ''                ''),
                    Element (str ''button'')
                      [(str ''class'', str ''edit-btn''), (str ''data-id'', file_id (file_list ! i)),
                       (str ''data-name'', file_name (file_list ! i))]
                      [Text (str ''Rename'')],
                    Text ([0xA] @ str ''                ''),
                    Element (str ''button'')
                      [(str ''class'', str ''delete-btn''), (str ''data-id'', file_id (file_list ! i))]
                      [Text (str ''Delete'')],
                    Text ([0xA] @ str ''            '')],
                 Text ([0xA] @ str ''        '')]) \<and>
      listeners (displayFiles file_list w) =
        Some (concat (map (\<lambda>f. [Edit_onclick \<lparr>data_id = file_id f, data_name = file_name f\<rparr>,
                                 Delete_onclick \<lparr>data_id = file_id f, data_name = str ''undefined''\<rparr>])
                        file_list)))\<close>
proof (intro conjI impI allI)
  show "resultsGrid (displayFiles [] w) = []" "listeners (displayFiles [] w) = Some []"
    "errorBox_innerText (displayFiles [] w) = str ''No results found.''"
    "\<not> errorBox_hidden (displayFiles [] w)"
    by (simp_all add: displayFiles_Nil showError_def)
  show "trace (displayFiles [] w) = trace w @ [Notified (str ''No results found.'')]"
    by (simp add: displayFiles_trace)
next
  assume "file_list \<noteq> []"
  then show "map className (resultsGrid (displayFiles file_list w)) =
        map (\<lambda>file. str ''file-card'') file_list"
    "map innerHTML (resultsGrid (displayFiles file_list w)) = map card_innerHTML file_list"
    "trace (displayFiles file_list w) = trace w"
    "errorBox_innerText (displayFiles file_list w) = errorBox_innerText w"
    "errorBox_hidden (displayFiles file_list w) = errorBox_hidden w"
    by (simp_all add: displayFiles_nonempty comp_def)
next
  fix i
  assume h: "file_list \<noteq> [] \<and>
    (\<forall>f\<in>set file_list.
       \<forall>c\<in>set (file_name f) \<union> set (file_id f). c \<notin> {0, 0xD, 0x22, 0x26, 0x3C})"
    and i: "i < length file_list"
  then have "file_list ! i \<in> set file_list"
    by simp
  with h have "\<forall>c\<in>set (file_name (file_list ! i)). c \<notin> {0, 0xD, 0x22, 0x26, 0x3C}"
    "\<forall>c\<in>set (file_id (file_list ! i)). c \<notin> {0, 0xD, 0x22, 0x26, 0x3C}"
    by blast+
  from card_parse [OF this] i
  show "parse_fragment (innerHTML (resultsGrid (displayFiles file_list w) ! i)) =
           Some [Text ([0xA] @ str ''            ''),
                 Element (str ''h3'') []
                   [Text ([0xD83D, 0xDCC4] @ str '' '' @ file_name (file_list ! i))],
                 Text ([0xA] @ str ''            ''),
                 Element (str ''p'') [] [Text (str ''ID: '' @ file_id (file_list ! i))],
                 Text ([0xA] @ str ''            ''),
                 Element (str ''div'') [(str ''class'', str ''card-actions'')]
                   [Text ([0xA] @ str ''                ''),
                    Element (str ''button'')
                      [(str ''class'', str ''edit-btn''), (str ''data-id'', file_id (file_list ! i)),
                       (str ''data-name'', file_name (file_list ! i))]
                      [Text (str ''Rename'')],
                    Text ([0xA] @ str ''                ''),
                    Element (str ''button'')
                      [(str ''class'', str ''delete-btn''), (str ''data-id'', file_id (file_list ! i))]
                      [Text (str ''Delete'')],
                    Text ([0xA] @ str ''            '')],
                 Text ([0xA] @ str ''        '')]"
    by (simp only: displayFiles_card [OF i] card.simps)
next
  assume h: "file_list \<noteq> [] \<and>
    (\<forall>f\<in>set file_list.
       \<forall>c\<in>set (file_name f) \<union> set (file_id f). c \<notin> {0, 0xD, 0x22, 0x26, 0x3C})"
  then have ne: "file_list \<noteq> []"
    and plain: "\<forall>f\<in>set file_list.
       \<forall>c\<in>set (file_name f) \<union> set (file_id f). c \<notin> {0, 0xD, 0x22, 0x26, 0x3C}"
    by blast+
  show "listeners (displayFiles file_list w) =
        Some (concat (map (\<lambda>f. [Edit_onclick \<lparr>data_id = file_id f, data_name = file_name f\<rparr>,
                                 Delete_onclick \<lparr>data_id = file_id f, data_name = str ''undefined''\<rparr>])
                        file_list))"
    unfolding displayFiles_nonempty [OF ne] by (rule plain_listeners [OF plain])
qed

theorem displayFiles_cards_witness:
  \<open>[example_record, second_record] \<noteq> [] \<and>
   list_all (\<lambda>f. list_all (\<lambda>c. c \<notin> {0, 0xD, 0x22, 0x26, 0x3C}) (file_name f @ file_id f))
     [example_record, second_record] \<and>
   map innerHTML (resultsGrid (displayFiles [example_record, second_record] example_page)) =
     [card_innerHTML example_record, card_innerHTML second_record] \<and>
   parse_fragment (innerHTML (resultsGrid (displayFiles [example_record, second_record] example_page) ! 1)) =
     Some [Text ([0xA] @ str ''            ''),
           Element (str ''h3'') [] [Text ([0xD83D, 0xDCC4] @ str '' '' @ str ''plan.txt'')],
           Text ([0xA] @ str ''            ''),
           Element (str ''p'') [] [Text (str ''ID: '' @ str ''2'')],
           Text ([0xA] @ str ''            ''),
           Element (str ''div'') [(str ''class'', str ''card-actions'')]
             [Text ([0xA] @ str ''                ''),
              Element (str ''button'')
                [(str ''class'', str ''edit-btn''), (str ''data-id'', str ''2''),
                 (str ''data-name'', str ''plan.txt'')]
                [Text (str ''Rename'')],
              Text ([0xA] @ str ''                ''),
              Element (str ''button'')
                [(str ''class'', str ''delete-btn''), (str ''data-id'', str ''2'')]
                [Text (str ''Delete'')],
              Text ([0xA] @ str ''            '')],
           Text ([0xA] @ str ''        '')] \<and>
   listeners (displayFiles [example_record, second_record] example_page) =
     Some [Edit_onclick \<lparr>data_id = str ''1'', data_name = str ''report.pdf''\<rparr>,
           Delete_onclick \<lparr>data_id = str ''1'', data_name = str ''undefined''\<rparr>,
           Edit_onclick \<lparr>data_id = str ''2'', data_name = str ''plan.txt''\<rparr>,
           Delete_onclick \<lparr>data_id = str ''2'', data_name = str ''undefined''\<rparr>]\<close>
proof -
  let ?fs = "[example_record, second_record]"
  have ne: "?fs \<noteq> []"
    by simp
  have fields: "file_name example_record = str ''report.pdf''" "file_id example_record = str ''1''"
    "file_name second_record = str ''plan.txt''" "file_id second_record = str ''2''"
    by (simp_all add: example_record_def second_record_def)
  have plain: "\<forall>f\<in>set ?fs. \<forall>c\<in>set (file_name f) \<union> set (file_id f). c \<notin> {0, 0xD, 0x22, 0x26, 0x3C}"
    by (simp add: fields) (simp add: str_def)
  then have plain': "list_all (\<lambda>f. list_all (\<lambda>c. c \<notin> {0, 0xD, 0x22, 0x26, 0x3C}) (file_name f @ file_id f)) ?fs"
    by (simp add: list_all_iff)
  note all = displayFiles_cards [where file_list = ?fs and w = example_page]
  from all ne have cards: "map innerHTML (resultsGrid (displayFiles ?fs example_page)) =
     [card_innerHTML example_record, card_innerHTML second_record]"
    by simp
  have both: "?fs \<noteq> [] \<and>
    (\<forall>f\<in>set ?fs. \<forall>c\<in>set (file_name f) \<union> set (file_id f). c \<notin> {0, 0xD, 0x22, 0x26, 0x3C})"
    using ne plain by (rule conjI)
  note shown = all [THEN conjunct2, THEN conjunct2, THEN conjunct2, THEN conjunct2, THEN conjunct2,
      THEN conjunct2, THEN mp, OF both]
  have "(1::nat) < length ?fs"
    by simp
  with shown [THEN conjunct1, THEN spec, of 1]
  have second: "parse_fragment (innerHTML (resultsGrid (displayFiles ?fs example_page) ! 1)) =
     Some [Text ([0xA] @ str ''            ''),
           Element (str ''h3'') [] [Text ([0xD83D, 0xDCC4] @ str '' '' @ str ''plan.txt'')],
           Text ([0xA] @ str ''            ''),
           Element (str ''p'') [] [Text (str ''ID: '' @ str ''2'')],
           Text ([0xA] @ str ''            ''),
           Element (str ''div'') [(str ''class'', str ''card-actions'')]
             [Text ([0xA] @ str ''                ''),
              Element (str ''button'')
                [(str ''class'', str ''edit-btn''), (str ''data-id'', str ''2''),
                 (str ''data-name'', str ''plan.txt'')]
                [Text (str ''Rename'')],
              Text ([0xA] @ str ''                ''),
              Element (str ''button'')
                [(str ''class'', str ''delete-btn''), (str ''data-id'', str ''2'')]
                [Text (str ''Delete'')],
              Text ([0xA] @ str ''            '')],
           Text ([0xA] @ str ''        '')]"
    by (simp add: fields)
  from shown [THEN conjunct2]
  have bound: "listeners (displayFiles ?fs example_page) =
     Some [Edit_onclick \<lparr>data_id = str ''1'', data_name = str ''report.pdf''\<rparr>,
           Delete_onclick \<lparr>data_id = str ''1'', data_name = str ''undefined''\<rparr>,
           Edit_onclick \<lparr>data_id = str ''2'', data_name = str ''plan.txt''\<rparr>,
           Delete_onclick \<lparr>data_id = str ''2'', data_name = str ''undefined''\<rparr>]"
    by (simp add: fields)
  from ne plain' cards second bound show ?thesis
    by (intro conjI)
qed

theorem quoted_identifier_counterexample:
  "file_id quote_record = [0x61, 0x22, 0x62] \<and>
   listeners (displayFiles [quote_record] example_page) =
     Some [Edit_onclick \<lparr>data_id = str ''a'', data_name = str ''x''\<rparr>,
           Delete_onclick \<lparr>data_id = str ''a'', data_name = str ''undefined''\<rparr>] \<and>
   str ''a'' \<noteq> file_id quote_record"
proof -
  have "parse_fragment (card_innerHTML quote_record) =
     Some [Text ([0xA] @ str ''            ''),
           Element (str ''h3'') [] [Text ([0xD83D, 0xDCC4] @ str '' x'')],
           Text ([0xA] @ str ''            ''),
           Element (str ''p'') [] [Text (str ''ID: '' @ [0x61, 0x22, 0x62])],
           Text ([0xA] @ str ''            ''),
           Element (str ''div'') [(str ''class'', str ''card-actions'')]
             [Text ([0xA] @ str ''                ''),
              Element (str ''button'')
                [(str ''class'', str ''edit-btn''), (str ''data-id'', str ''a''), ([0x62, 0x22], []),
                 (str ''data-name'', str ''x'')]
                [Text (str ''Rename'')],
              Text ([0xA] @ str ''                ''),
              Element (str ''button'')
                [(str ''class'', str ''delete-btn''), (str ''data-id'', str ''a''), ([0x62, 0x22], [])]
                [Text (str ''Delete'')],
              Text ([0xA] @ str ''            '')],
           Text ([0xA] @ str ''        '')]"
    by (simp add: parse_fragment_def card_innerHTML_def quote_record_def str_def
        tokenizer_defs tree_defs)
  moreover have
    "onclick_of (n, [(str ''class'', str ''edit-btn''), (str ''data-id'', str ''a''), ([0x62, 0x22], []),
                     (str ''data-name'', str ''x'')])
       = Some (Edit_onclick \<lparr>data_id = str ''a'', data_name = str ''x''\<rparr>)"
    "onclick_of (n, [(str ''class'', str ''delete-btn''), (str ''data-id'', str ''a''), ([0x62, 0x22], [])])
       = Some (Delete_onclick \<lparr>data_id = str ''a'', data_name = str ''undefined''\<rparr>)"
    for n
    by (simp_all add: onclick_of_def class_list_def dataset_def str_def)
  ultimately have "listeners (displayFiles [quote_record] example_page) =
     Some [Edit_onclick \<lparr>data_id = str ''a'', data_name = str ''x''\<rparr>,
           Delete_onclick \<lparr>data_id = str ''a'', data_name = str ''undefined''\<rparr>]"
    by (simp add: displayFiles_nonempty setupCardListeners_def card_elements_def
        map_filter_simps onclick_of_other)
  moreover have "file_id quote_record = [0x61, 0x22, 0x62]" "str ''a'' \<noteq> file_id quote_record"
    by (simp_all add: quote_record_def str_def)
  ultimately show ?thesis
    by (intro conjI)
qed

section \<open>The busy flag around a search\<close>

text \<open>
  The transport call adds at most one request to the trace and touches nothing else; the
  second part of \<^verbatim>\<open>handleSearch\<close> shows at most one notice, ends with
  \<^verbatim>\<open>toggleLoading(false)\<close> and completes normally.
\<close>

lemma apiSearchFiles_effect:
  "\<exists>calls. length calls \<le> 1 \<and>
     snd (apiSearchFiles CONFIG env t w) = w\<lparr>trace := trace w @ map Fetched calls\<rparr>"
proof (cases "encodeURIComponent (str ''name contains '' @ [0x27] @ t @ [0x27] @ str '' and trashed = false'')")
  case None
  then have "snd (apiSearchFiles CONFIG env t w) = w\<lparr>trace := trace w @ map Fetched []\<rparr>"
    by (simp add: apiSearchFiles_def)
  then show ?thesis
    by (metis le0 list.size(3))
next
  case (Some query)
  then have "snd (apiSearchFiles CONFIG env t w)
               = w\<lparr>trace := trace w @ map Fetched [searchRequest CONFIG query]\<rparr>"
    by (simp add: apiSearchFiles_def fetch_def split: fetched.splits)
  moreover have "length [searchRequest CONFIG query] \<le> 1"
    by simp
  ultimately show ?thesis
    by blast
qed

lemma handleSearch_resume_effect:
  "\<exists>shown. length shown \<le> 1 \<and>
     fst (handleSearch_resume awaited w) = Inr () \<and>
     trace (snd (handleSearch_resume awaited w)) = trace w @ map Notified shown @ [Loading False] \<and>
     loader_hidden (snd (handleSearch_resume awaited w)) \<and>
     \<not> searchBtn_disabled (snd (handleSearch_resume awaited w)) \<and>
     \<not> uploadBtn_disabled (snd (handleSearch_resume awaited w)) \<and>
     unhandled (snd (handleSearch_resume awaited w)) = unhandled w"
proof (cases awaited)
  case (Inl err)
  then have "fst (handleSearch_resume awaited w) = Inr () \<and>
     trace (snd (handleSearch_resume awaited w)) = trace w @ map Notified [message err] @ [Loading False] \<and>
     loader_hidden (snd (handleSearch_resume awaited w)) \<and>
     \<not> searchBtn_disabled (snd (handleSearch_resume awaited w)) \<and>
     \<not> uploadBtn_disabled (snd (handleSearch_resume awaited w)) \<and>
     unhandled (snd (handleSearch_resume awaited w)) = unhandled w"
    by (simp add: handleSearch_resume_def try_catch_finally_def throw_js_def void_def
        showError_def toggleLoading_def)
  moreover have "length [message err] \<le> 1"
    by simp
  ultimately show ?thesis
    by blast
next
  case (Inr data)
  then have "fst (handleSearch_resume awaited w) = Inr () \<and>
     trace (snd (handleSearch_resume awaited w)) =
       trace w @ map Notified (if files data = [] then [str ''No results found.''] else []) @ [Loading False] \<and>
     loader_hidden (snd (handleSearch_resume awaited w)) \<and>
     \<not> searchBtn_disabled (snd (handleSearch_resume awaited w)) \<and>
     \<not> uploadBtn_disabled (snd (handleSearch_resume awaited w)) \<and>
     unhandled (snd (handleSearch_resume awaited w)) = unhandled w"
    by (simp add: handleSearch_resume_def try_catch_finally_def void_def
        toggleLoading_def displayFiles_trace displayFiles_busy)
  moreover have "length (if files data = [] then [str ''No results found.''] else []) \<le> 1"
    by simp
  ultimately show ?thesis
    by blast
qed

text \<open>
  C8. In a search with a non-empty trimmed term, \<^verbatim>\<open>toggleLoading(true)\<close> runs first, so
  the transport function is called on a busy page (loader shown, both buttons disabled),
  and the page is still busy while the request is pending, that is when the first part of
  \<^verbatim>\<open>handleSearch\<close> has returned. What the whole action adds to the trace is
  \<^verbatim>\<open>toggleLoading(true)\<close>, then the transport call (none when the term cannot be
  encoded), then at most one notice, then \<^verbatim>\<open>toggleLoading(false)\<close>: busy is cleared last,
  whatever the service answers, and the action completes normally with the loader hidden
  and both buttons enabled.
\<close>

theorem search_busy_bracket:
  assumes "trim (searchInput_value w) \<noteq> []"
  shows "\<exists>calls shown awaited pending.
           length calls \<le> 1 \<and> length shown \<le> 1 \<and>
           \<not> loader_hidden (toggleLoading True w) \<and>
           searchBtn_disabled (toggleLoading True w) \<and>
           uploadBtn_disabled (toggleLoading True w) \<and>
           apiSearchFiles CONFIG env (trim (searchInput_value w)) (toggleLoading True w)
             = (awaited, pending) \<and>
           handleSearch_begin CONFIG env w = (Inr (Some awaited), pending) \<and>
           trace pending = trace w @ [Loading True] @ map Fetched calls \<and>
           \<not> loader_hidden pending \<and> searchBtn_disabled pending \<and> uploadBtn_disabled pending \<and>
           handleSearch CONFIG env w = handleSearch_resume awaited pending \<and>
           fst (handleSearch CONFIG env w) = Inr () \<and>
           trace (snd (handleSearch CONFIG env w)) =
             trace w @ [Loading True] @ map Fetched calls @ map Notified shown @ [Loading False] \<and>
           loader_hidden (snd (handleSearch CONFIG env w)) \<and>
           \<not> searchBtn_disabled (snd (handleSearch CONFIG env w)) \<and>
           \<not> uploadBtn_disabled (snd (handleSearch CONFIG env w))"
proof -
  let ?t = "trim (searchInput_value w)"
  let ?w1 = "toggleLoading True w"
  obtain awaited w2 where api: "apiSearchFiles CONFIG env ?t ?w1 = (awaited, w2)"
    by (cases "apiSearchFiles CONFIG env ?t ?w1")
  obtain calls where calls: "length calls \<le> 1"
    and w2: "w2 = ?w1\<lparr>trace := trace ?w1 @ map Fetched calls\<rparr>"
    using apiSearchFiles_effect [of CONFIG env ?t ?w1] api by auto
  have busy: "\<not> loader_hidden ?w1" "searchBtn_disabled ?w1" "uploadBtn_disabled ?w1"
    by (simp_all add: toggleLoading_def)
  have pending: "\<not> loader_hidden w2" "searchBtn_disabled w2" "uploadBtn_disabled w2"
    by (simp_all add: w2 toggleLoading_def)
  have started: "handleSearch_begin CONFIG env w = (Inr (Some awaited), w2)"
    using assms api by (simp add: handleSearch_begin_def)
  have run: "handleSearch CONFIG env w = handleSearch_resume awaited w2"
    using assms api by (simp add: handleSearch_def bind_js_def handleSearch_begin_def)
  obtain shown where shown: "length shown \<le> 1"
    and res: "fst (handleSearch_resume awaited w2) = Inr ()"
      "trace (snd (handleSearch_resume awaited w2)) = trace w2 @ map Notified shown @ [Loading False]"
      "loader_hidden (snd (handleSearch_resume awaited w2))"
      "\<not> searchBtn_disabled (snd (handleSearch_resume awaited w2))"
      "\<not> uploadBtn_disabled (snd (handleSearch_resume awaited w2))"
    using handleSearch_resume_effect [of awaited w2] by blast
  have tr: "trace w2 = trace w @ [Loading True] @ map Fetched calls"
    by (simp add: w2 toggleLoading_def)
  from calls shown busy api started tr pending run res show ?thesis
    by (intro exI [of _ calls] exI [of _ shown] exI [of _ awaited] exI [of _ w2]) simp
qed

theorem search_busy_bracket_witness:
  "trim (searchInput_value example_page) = str ''report'' \<and> str ''report'' \<noteq> [] \<and>
   (\<exists>calls shown awaited pending.
      length calls \<le> 1 \<and> length shown \<le> 1 \<and>
      \<not> loader_hidden (toggleLoading True example_page) \<and>
      searchBtn_disabled (toggleLoading True example_page) \<and>
      uploadBtn_disabled (toggleLoading True example_page) \<and>
      apiSearchFiles example_config service_down (trim (searchInput_value example_page))
        (toggleLoading True example_page) = (awaited, pending) \<and>
      handleSearch_begin example_config service_down example_page = (Inr (Some awaited), pending) \<and>
      trace pending = trace example_page @ [Loading True] @ map Fetched calls \<and>
      \<not> loader_hidden pending \<and> searchBtn_disabled pending \<and> uploadBtn_disabled pending \<and>
      handleSearch example_config service_down example_page = handleSearch_resume awaited pending \<and>
      fst (handleSearch example_config service_down example_page) = Inr () \<and>
      trace (snd (handleSearch example_config service_down example_page)) =
        trace example_page @ [Loading True] @ map Fetched calls @ map Notified shown @ [Loading False] \<and>
      loader_hidden (snd (handleSearch example_config service_down example_page)) \<and>
      \<not> searchBtn_disabled (snd (handleSearch example_config service_down example_page)) \<and>
      \<not> uploadBtn_disabled (snd (handleSearch example_config service_down example_page)))"
proof -
  have trimmed: "trim (searchInput_value example_page) = str ''report''"
    by (simp add: example_page_def trim_def str_def isWhiteSpace_def)
  have nonempty: "str ''report'' \<noteq> []"
    by (simp add: str_def)
  from trimmed nonempty have "trim (searchInput_value example_page) \<noteq> []"
    by simp
  from search_busy_bracket [OF this, of example_config service_down] trimmed nonempty
  show ?thesis
    by (intro conjI)
qed

section \<open>Names and identifiers in the markup\<close>









section \<open>The transport functions on a response\<close>

text \<open>
  When the service answers the request with a response, each API function issues exactly
  that request, and throws its fixed message if the response is not \<^verbatim>\<open>ok\<close>.
\<close>

lemma apiSearchFiles_Resolved:
  assumes "encodeURIComponent
             (str ''name contains '' @ [0x27] @ t @ [0x27] @ str '' and trashed = false'') = Some query"
    and "list_endpoint env (length (requests (trace w))) (searchRequest CONFIG query) = Resolved response"
  shows "apiSearchFiles CONFIG env t w =
           (if \<not> ok response then Inl (Error (str ''Failed to fetch files.'')) else json response,
            w\<lparr>trace := trace w @ [Fetched (searchRequest CONFIG query)]\<rparr>)"
  using assms by (simp add: apiSearchFiles_def fetch_def)

lemma apiUploadFile_Resolved:
  assumes "upload_endpoint env (length (requests (trace w))) (uploadRequest CONFIG file) = Resolved response"
  shows "apiUploadFile CONFIG env file w =
           (if \<not> ok response then Inl (Error (str ''Upload failed.'')) else json response,
            w\<lparr>trace := trace w @ [Fetched (uploadRequest CONFIG file)]\<rparr>)"
  using assms by (simp add: apiUploadFile_def fetch_def)

lemma apiUpdateFile_Resolved:
  assumes "item_endpoint env (length (requests (trace w))) (updateRequest CONFIG fileId newName) = Resolved response"
  shows "apiUpdateFile CONFIG env fileId newName w =
           (if \<not> ok response then Inl (Error (str ''Update failed.'')) else Inr (),
            w\<lparr>trace := trace w @ [Fetched (updateRequest CONFIG fileId newName)]\<rparr>)"
  using assms by (simp add: apiUpdateFile_def fetch_def)

lemma apiDeleteFile_Resolved:
  assumes "item_endpoint env (length (requests (trace w))) (deleteRequest CONFIG fileId) = Resolved response"
  shows "apiDeleteFile CONFIG env fileId w =
           (if \<not> ok response then Inl (Error (str ''Delete failed.'')) else Inr (),
            w\<lparr>trace := trace w @ [Fetched (deleteRequest CONFIG fileId)]\<rparr>)"
  using assms by (simp add: apiDeleteFile_def fetch_def)

lemma toggleLoading_requests [simp]:
  "requests (trace (toggleLoading b w)) = requests (trace w)"
  by (simp add: toggleLoading_def)

section \<open>The search filter\<close>

text \<open>
  \<^verbatim>\<open>encodeURIComponent\<close> never writes a single quote of its own and keeps every single
  quote of its argument: an escape is a percent sign and two hexadecimal digits.
\<close>

lemma hexDigit_not_quote: "hexDigit n \<noteq> 0x27"
proof -
  have "n mod 16 < length (str ''0123456789ABCDEF'')"
    by (simp add: str_def)
  then have "hexDigit n \<in> set (str ''0123456789ABCDEF'')"
    unfolding hexDigit_def by (rule nth_mem)
  moreover have "0x27 \<notin> set (str ''0123456789ABCDEF'')"
    by (simp add: str_def)
  ultimately show ?thesis
    by metis
qed

lemma escapeCodePoint_no_quote: "count_list (escapeCodePoint cp) 0x27 = 0"
proof -
  have "0x27 \<notin> set (percent b)" for b
    using hexDigit_not_quote [of "b div 16"] hexDigit_not_quote [of "b mod 16"]
    by (auto simp: percent_def)
  then have "0x27 \<notin> set (escapeCodePoint cp)"
    by (auto simp: escapeCodePoint_def)
  then show ?thesis
    by (simp add: count_list_0_iff)
qed

lemma escaped_is_not_quote: "\<not> uriUnreserved c \<Longrightarrow> c \<noteq> 0x27"
  by (auto simp: uriUnreserved_def)

lemma encodeURIComponent_keeps_quotes:
  "encodeURIComponent s = Some q \<Longrightarrow> count_list q 0x27 = count_list s 0x27"
proof (induction s arbitrary: q rule: encodeURIComponent.induct)
  case 1
  then show ?case by simp
next
  case (2 c)
  then show ?case
    by (auto simp: escapeCodePoint_no_quote escaped_is_not_quote split: if_splits)
next
  case (3 c d ds)
  show ?case
  proof (cases "uriUnreserved c")
    case True
    with "3.prems" obtain q' where q': "encodeURIComponent (d # ds) = Some q'" "q = c # q'"
      by auto
    with "3.IH"(1) [OF True q'(1)] show ?thesis
      by simp
  next
    case False
    note escaped = this
    then have c: "c \<noteq> 0x27"
      by (rule escaped_is_not_quote)
    show ?thesis
    proof (cases "isHighSurrogate c")
      case True
      with escaped "3.prems" have low: "\<not> isLowSurrogate c" "isLowSurrogate d"
        by (auto split: if_splits)
      then have d: "d \<noteq> 0x27"
        by (auto simp: isLowSurrogate_def)
      from escaped True low "3.prems" obtain q' where
        q': "encodeURIComponent ds = Some q'"
          "q = escapeCodePoint (0x10000 + (unat c - 0xD800) * 0x400 + (unat d - 0xDC00)) @ q'"
        by auto
      with "3.IH"(2) [OF escaped low(1) True low(2) q'(1)] c d show ?thesis
        by (simp add: escapeCodePoint_no_quote)
    next
      case False
      with escaped "3.prems" have low: "\<not> isLowSurrogate c"
        by (auto split: if_splits)
      from escaped False low "3.prems" obtain q' where
        q': "encodeURIComponent (d # ds) = Some q'" "q = escapeCodePoint (unat c) @ q'"
        by auto
      with "3.IH"(3) [OF escaped low False q'(1)] c show ?thesis
        by (simp add: escapeCodePoint_no_quote)
    qed
  qed
qed

lemma quoted_literal_quote: "quoted_literal (0x27 # r) = Some ([], r)"
  by (cases r) simp_all

lemma quoted_literal_plain:
  "0x27 \<notin> set pre \<Longrightarrow> 0x5C \<notin> set pre \<Longrightarrow> quoted_literal (pre @ 0x27 # r) = Some (pre, r)"
proof (induction pre)
  case Nil
  show ?case by (simp add: quoted_literal_quote)
next
  case (Cons c pre)
  then have c: "c \<noteq> 0x27" "c \<noteq> 0x5C" and rest: "quoted_literal (pre @ 0x27 # r) = Some (pre, r)"
    by auto
  obtain d ds where split: "pre @ 0x27 # r = d # ds"
    by (cases "pre @ 0x27 # r") auto
  with c rest show ?case
    by simp
qed

lemma quoted_literal_append:
  "quoted_literal t = Some (lit, rest) \<Longrightarrow> quoted_literal (t @ x) = Some (lit, rest @ x)"
proof (induction t arbitrary: lit rule: quoted_literal.induct)
  case 1
  then show ?case by simp
next
  case (2 c)
  then show ?case
    by (cases x) (auto split: if_splits)
next
  case (3 c d ds)
  show ?case
  proof (cases "c = 0x27")
    case True
    with "3.prems" show ?thesis by auto
  next
    case False
    note not_quote = this
    show ?thesis
    proof (cases "c = 0x5C")
      case True
      with not_quote "3.prems" obtain l where l: "quoted_literal ds = Some (l, rest)" "lit = d # l"
        by auto
      from "3.IH"(1) [OF not_quote True l(1)] not_quote True l(2) show ?thesis
        by simp
    next
      case False
      with not_quote "3.prems" obtain l where l: "quoted_literal (d # ds) = Some (l, rest)" "lit = c # l"
        by auto
      from "3.IH"(2) [OF not_quote False l(1)] not_quote False l(2) show ?thesis
        by simp
    qed
  qed
qed

text \<open>
  C10. For every search term the filter is the template
  \<^verbatim>\<open>name contains '<term>' and trashed = false\<close> with the term put in as it is, and the
  whole filter is then given to \<^verbatim>\<open>encodeURIComponent\<close>: when the encoding throws, no
  request is made; otherwise the request's URL carries the encoded filter after
  \<^verbatim>\<open>?q=\<close>, and the encoded filter has the two quotes of the template plus every quote of
  the term. The script escapes no quote. A term with neither quote nor backslash is the
  value of the quoted literal. A term with a quote that no backslash comes before ends the
  literal at that quote: the value is the part of the term before it, and the rest of the
  term is read as filter syntax, so the filter is not the one the template stands for. In
  general, when the literal read from the term alone is closed inside the term, the same
  value is read from the filter. A quote that the user has escaped does not end the
  literal: the term \<^verbatim>\<open>it\'s\<close> gives the value \<^verbatim>\<open>it's\<close>, closed by the template's own
  quote.
\<close>

theorem search_filter_verbatim:
  "(case encodeURIComponent
           (str ''name contains '' @ [0x27] @ t @ [0x27] @ str '' and trashed = false'') of
      None \<Rightarrow> apiSearchFiles CONFIG env t w = (Inl (URIError (uri_malformed env)), w)
    | Some query \<Rightarrow>
        requests (trace (snd (apiSearchFiles CONFIG env t w))) =
          requests (trace w) @ [searchRequest CONFIG query] \<and>
        url (searchRequest CONFIG query) =
          BASE_URL CONFIG @ str ''?q='' @ query @ str ''&fields=files(id,name,mimeType)'' \<and>
        count_list query 0x27 = 2 + count_list t 0x27) \<and>
   (0x27 \<notin> set t \<and> 0x5C \<notin> set t \<longrightarrow>
      quoted_literal (t @ [0x27] @ str '' and trashed = false'') =
        Some (t, str '' and trashed = false'')) \<and>
   (\<forall>pre post. t = pre @ [0x27] @ post \<and> 0x27 \<notin> set pre \<and> 0x5C \<notin> set pre \<longrightarrow>
      quoted_literal (t @ [0x27] @ str '' and trashed = false'') =
        Some (pre, post @ [0x27] @ str '' and trashed = false'') \<and>
      pre \<noteq> t \<and>
      post @ [0x27] @ str '' and trashed = false'' \<noteq> str '' and trashed = false'') \<and>
   (\<forall>lit rest. quoted_literal t = Some (lit, rest) \<longrightarrow>
      quoted_literal (t @ [0x27] @ str '' and trashed = false'') =
        Some (lit, rest @ [0x27] @ str '' and trashed = false''))"
proof (intro conjI allI impI)
  show "case encodeURIComponent
           (str ''name contains '' @ [0x27] @ t @ [0x27] @ str '' and trashed = false'') of
      None \<Rightarrow> apiSearchFiles CONFIG env t w = (Inl (URIError (uri_malformed env)), w)
    | Some query \<Rightarrow>
        requests (trace (snd (apiSearchFiles CONFIG env t w))) =
          requests (trace w) @ [searchRequest CONFIG query] \<and>
        url (searchRequest CONFIG query) =
          BASE_URL CONFIG @ str ''?q='' @ query @ str ''&fields=files(id,name,mimeType)'' \<and>
        count_list query 0x27 = 2 + count_list t 0x27"
  proof (cases "encodeURIComponent
           (str ''name contains '' @ [0x27] @ t @ [0x27] @ str '' and trashed = false'')")
    case None
    then show ?thesis
      by (simp add: apiSearchFiles_def)
  next
    case (Some query)
    have "count_list (str ''name contains '') 0x27 = 0" "count_list (str '' and trashed = false'') 0x27 = 0"
      by (simp_all add: str_def)
    with encodeURIComponent_keeps_quotes [OF Some] have "count_list query 0x27 = 2 + count_list t 0x27"
      by simp
    moreover have "requests (trace (snd (apiSearchFiles CONFIG env t w))) =
            requests (trace w) @ [searchRequest CONFIG query]"
      using Some by (simp add: apiSearchFiles_def fetch_def split: fetched.splits)
    ultimately show ?thesis
      using Some by (simp add: searchRequest_def)
  qed
next
  assume "0x27 \<notin> set t \<and> 0x5C \<notin> set t"
  then show "quoted_literal (t @ [0x27] @ str '' and trashed = false'') =
        Some (t, str '' and trashed = false'')"
    using quoted_literal_plain [of t "str '' and trashed = false''"] by simp
next
  fix pre post
  assume h: "t = pre @ [0x27] @ post \<and> 0x27 \<notin> set pre \<and> 0x5C \<notin> set pre"
  then have "quoted_literal (pre @ 0x27 # post @ [0x27] @ str '' and trashed = false'') =
        Some (pre, post @ [0x27] @ str '' and trashed = false'')"
    by (intro quoted_literal_plain) simp_all
  with h show "quoted_literal (t @ [0x27] @ str '' and trashed = false'') =
        Some (pre, post @ [0x27] @ str '' and trashed = false'')"
    by simp
  from h show "pre \<noteq> t"
    by simp
  have "length (post @ [0x27] @ str '' and trashed = false'') \<noteq> length (str '' and trashed = false'')"
    by simp
  then show "post @ [0x27] @ str '' and trashed = false'' \<noteq> str '' and trashed = false''"
    by metis
next
  fix lit rest
  assume "quoted_literal t = Some (lit, rest)"
  then show "quoted_literal (t @ [0x27] @ str '' and trashed = false'') =
        Some (lit, rest @ [0x27] @ str '' and trashed = false'')"
    by (rule quoted_literal_append)
qed

theorem search_filter_verbatim_witness:
  "encodeURIComponent (str ''name contains 'x' or name contains 'y' and trashed = false'')
     = Some (str ''name%20contains%20'x'%20or%20name%20contains%20'y'%20and%20trashed%20%3D%20false'') \<and>
   requests (trace (snd (apiSearchFiles example_config service_up (str ''x' or name contains 'y'') example_page)))
     = [searchRequest example_config
          (str ''name%20contains%20'x'%20or%20name%20contains%20'y'%20and%20trashed%20%3D%20false'')] \<and>
   str ''x' or name contains 'y'' = str ''x'' @ [0x27] @ str '' or name contains 'y'' \<and>
   0x27 \<notin> set (str ''x'') \<and> 0x5C \<notin> set (str ''x'') \<and>
   quoted_literal (str ''x' or name contains 'y'' @ [0x27] @ str '' and trashed = false'')
     = Some (str ''x'', str '' or name contains 'y'' @ [0x27] @ str '' and trashed = false'') \<and>
   0x27 \<notin> set (str ''report'') \<and> 0x5C \<notin> set (str ''report'') \<and>
   quoted_literal (str ''report'' @ [0x27] @ str '' and trashed = false'')
     = Some (str ''report'', str '' and trashed = false'')"
proof -
  let ?t = "str ''x' or name contains 'y''"
  have same: "str ''name contains '' @ [0x27] @ ?t @ [0x27] @ str '' and trashed = false''
              = str ''name contains 'x' or name contains 'y' and trashed = false''"
    by (simp add: str_def)
  have encoded: "encodeURIComponent (str ''name contains 'x' or name contains 'y' and trashed = false'')
     = Some (str ''name%20contains%20'x'%20or%20name%20contains%20'y'%20and%20trashed%20%3D%20false'')"
    by (simp add: str_def uriUnreserved_def isLowSurrogate_def isHighSurrogate_def
        escapeCodePoint_def utf8_def percent_def hexDigit_def)
  have start: "trace example_page = []"
    by (simp add: example_page_def)
  have split: "?t = str ''x'' @ [0x27] @ str '' or name contains 'y''"
    and pre: "0x27 \<notin> set (str ''x'')" "0x5C \<notin> set (str ''x'')"
    and plain: "0x27 \<notin> set (str ''report'')" "0x5C \<notin> set (str ''report'')"
    by (simp_all add: str_def)
  note inst = search_filter_verbatim [where t = ?t and CONFIG = example_config
      and env = service_up and w = example_page]
  note inst' = search_filter_verbatim [where t = "str ''report''" and CONFIG = example_config
      and env = service_up and w = example_page]
  from inst [THEN conjunct1] encoded start
  have sent: "requests (trace (snd (apiSearchFiles example_config service_up ?t example_page)))
     = [searchRequest example_config
          (str ''name%20contains%20'x'%20or%20name%20contains%20'y'%20and%20trashed%20%3D%20false'')]"
    by (simp only: same) simp
  from inst [THEN conjunct2, THEN conjunct2, THEN conjunct1, THEN spec, THEN spec] split pre
  have cut: "quoted_literal (?t @ [0x27] @ str '' and trashed = false'')
     = Some (str ''x'', str '' or name contains 'y'' @ [0x27] @ str '' and trashed = false'')"
    by blast
  from inst' [THEN conjunct2, THEN conjunct1] plain
  have whole: "quoted_literal (str ''report'' @ [0x27] @ str '' and trashed = false'')
     = Some (str ''report'', str '' and trashed = false'')"
    by blast
  from encoded sent split pre cut plain whole show ?thesis
    by (intro conjI)
qed

theorem escaped_quote_counterexample:
  "0x27 \<in> set [0x69, 0x74, 0x5C, 0x27, 0x73 :: 16 word] \<and>
   apiSearchFiles example_config service_up [0x69, 0x74, 0x5C, 0x27, 0x73] example_page =
     (Inr \<lparr>files = [example_record]\<rparr>,
      example_page\<lparr>trace := [Fetched (searchRequest example_config
         (str ''name%20contains%20'it%5C's'%20and%20trashed%20%3D%20false''))]\<rparr>) \<and>
   quoted_literal ([0x69, 0x74, 0x5C, 0x27, 0x73] @ [0x27] @ str '' and trashed = false'')
     = Some (str ''it's'', str '' and trashed = false'')"
  by (simp add: apiSearchFiles_def fetch_def str_def uriUnreserved_def isLowSurrogate_def
      isHighSurrogate_def escapeCodePoint_def utf8_def percent_def hexDigit_def service_up_def
      example_page_def)

section \<open>What a search returns\<close>

text \<open>
  The two parts of \<^verbatim>\<open>handleSearch\<close> on a term that is not empty, and the term and
  encoded filter of the concrete page.
\<close>

lemma handleSearch_awaits:
  assumes "trim (searchInput_value p) \<noteq> []"
    and "apiSearchFiles CONFIG env (trim (searchInput_value p)) (toggleLoading True p) = (awaited, w')"
  shows "handleSearch CONFIG env p = handleSearch_resume awaited w'"
  using assms by (simp add: handleSearch_def bind_js_def handleSearch_begin_def)


lemma handleSearch_resume_Inl:
  "handleSearch_resume (Inl err) w = (Inr (), toggleLoading False (showError (message err) w))"
  by (simp add: handleSearch_resume_def try_catch_finally_def void_def throw_js_def)

lemma encoded_report:
  "encodeURIComponent
     (str ''name contains '' @ [0x27] @ str ''report'' @ [0x27] @ str '' and trashed = false'')
   = Some (str ''name%20contains%20'report'%20and%20trashed%20%3D%20false'')"
  by (simp add: str_def uriUnreserved_def isLowSurrogate_def isHighSurrogate_def
      escapeCodePoint_def utf8_def percent_def hexDigit_def)

lemma trim_example_page: "trim (searchInput_value example_page) = str ''report''"
  by (simp add: example_page_def trim_def str_def isWhiteSpace_def)



section \<open>Upload, then rename\<close>

lemma toggleLoading_trace: "trace (toggleLoading b w) = trace w @ [Loading b]"
  by (simp add: toggleLoading_def)

lemma handleUpload_runs:
  assumes "fileInput_files w = file # others"
  shows "handleUpload CONFIG env w =
     try_catch_finally
       (bind_js (apiUploadFile CONFIG env file) (\<lambda>uploadedFile.
        bind_js (apiUpdateFile CONFIG env (file_id uploadedFile) (blob_name file)) (\<lambda>u.
        bind_js (void (showError (str ''File uploaded successfully!''))) (\<lambda>u.
        void (\<lambda>w'. w'\<lparr>fileInput_files := []\<rparr>)))))
       (\<lambda>err. void (showError (message err)))
       (void (toggleLoading False))
       (toggleLoading True w)"
  using assms by (simp add: handleUpload_def)

lemma upload_succeeds:
  assumes sel: "fileInput_files w = file # others"
    and up: "upload_endpoint env (length (requests (trace w))) (uploadRequest CONFIG file)
               = Resolved created"
    and ok_up: "ok created" "json created = Inr uploadedFile"
    and ren: "item_endpoint env (Suc (length (requests (trace w))))
                (updateRequest CONFIG (file_id uploadedFile) (blob_name file)) = Resolved renamed"
    and ok_ren: "ok renamed"
  shows "handleUpload CONFIG env w =
     (Inr (),
      toggleLoading False
        ((showError (str ''File uploaded successfully!'')
           ((toggleLoading True w)
              \<lparr>trace := trace w @
                 [Loading True, Fetched (uploadRequest CONFIG file),
                  Fetched (updateRequest CONFIG (file_id uploadedFile) (blob_name file))]\<rparr>))
         \<lparr>fileInput_files := []\<rparr>))"
proof -
  let ?w1 = "toggleLoading True w"
  let ?w2 = "?w1\<lparr>trace := trace w @ [Loading True, Fetched (uploadRequest CONFIG file)]\<rparr>"
  let ?w3 = "?w1\<lparr>trace := trace w @
               [Loading True, Fetched (uploadRequest CONFIG file),
                Fetched (updateRequest CONFIG (file_id uploadedFile) (blob_name file))]\<rparr>"
  have "upload_endpoint env (length (requests (trace ?w1))) (uploadRequest CONFIG file) = Resolved created"
    using up by simp
  from apiUploadFile_Resolved [OF this] ok_up
  have a: "apiUploadFile CONFIG env file ?w1 = (Inr uploadedFile, ?w2)"
    by (simp add: toggleLoading_trace)
  have "item_endpoint env (length (requests (trace ?w2)))
          (updateRequest CONFIG (file_id uploadedFile) (blob_name file)) = Resolved renamed"
    using ren by simp
  from apiUpdateFile_Resolved [OF this] ok_ren
  have b: "apiUpdateFile CONFIG env (file_id uploadedFile) (blob_name file) ?w2 = (Inr (), ?w3)"
    by simp
  show ?thesis
    by (simp add: handleUpload_runs [OF sel] try_catch_finally_def bind_js_def void_def a b)
qed

text \<open>
  C3. An upload with a file selected, where the media upload is answered \<^verbatim>\<open>ok\<close> with a
  decodable record and the update is answered \<^verbatim>\<open>ok\<close>, issues exactly two requests: first
  the POST of the file, then the PATCH of the new record whose body sets \<^verbatim>\<open>name\<close> to the
  name of the selected local file. Afterwards the file selection is empty; the action
  shows \<^verbatim>\<open>File uploaded successfully!\<close> and completes normally.
\<close>

theorem upload_then_rename:
  assumes "fileInput_files w = file # others"
    and "upload_endpoint env (length (requests (trace w))) (uploadRequest CONFIG file)
           = Resolved created"
    and "ok created" and "json created = Inr uploadedFile"
    and "item_endpoint env (Suc (length (requests (trace w))))
           (updateRequest CONFIG (file_id uploadedFile) (blob_name file)) = Resolved renamed"
    and "ok renamed"
  shows "fst (handleUpload CONFIG env w) = Inr () \<and>
         requests (trace (snd (handleUpload CONFIG env w))) =
           requests (trace w) @
             [uploadRequest CONFIG file,
              updateRequest CONFIG (file_id uploadedFile) (blob_name file)] \<and>
         http_method (uploadRequest CONFIG file) = POST \<and>
         body (uploadRequest CONFIG file) = FileBody file \<and>
         http_method (updateRequest CONFIG (file_id uploadedFile) (blob_name file)) = PATCH \<and>
         url (updateRequest CONFIG (file_id uploadedFile) (blob_name file)) =
           BASE_URL CONFIG @ str ''/'' @ file_id uploadedFile \<and>
         body (updateRequest CONFIG (file_id uploadedFile) (blob_name file)) =
           JSON_stringify [(str ''name'', blob_name file)] \<and>
         fileInput_files (snd (handleUpload CONFIG env w)) = [] \<and>
         trace (snd (handleUpload CONFIG env w)) =
           trace w @
             [Loading True, Fetched (uploadRequest CONFIG file),
              Fetched (updateRequest CONFIG (file_id uploadedFile) (blob_name file)),
              Notified (str ''File uploaded successfully!''), Loading False]"
  by (simp add: upload_succeeds [OF assms] toggleLoading_def showError_def)
    (simp add: uploadRequest_def updateRequest_def)

theorem upload_then_rename_witness:
  "fileInput_files example_page = [example_blob] \<and>
   blob_name example_blob = str ''notes.txt'' \<and>
   fst (handleUpload example_config service_up example_page) = Inr () \<and>
   requests (trace (snd (handleUpload example_config service_up example_page))) =
     [uploadRequest example_config example_blob,
      updateRequest example_config (str ''7'') (str ''notes.txt'')] \<and>
   fileInput_files (snd (handleUpload example_config service_up example_page)) = []"
proof -
  let ?created = "\<lparr>ok = True, json = Inr \<lparr>file_id = str ''7'', file_name = str ''Untitled'',
                     file_mimeType = str ''text/plain''\<rparr>\<rparr> :: drive_file response"
  let ?renamed = "\<lparr>ok = True, json = Inr ()\<rparr> :: unit response"
  have sel: "fileInput_files example_page = example_blob # []"
    by (simp add: example_page_def)
  have name: "blob_name example_blob = str ''notes.txt''"
    by (simp add: example_blob_def)
  have up: "upload_endpoint service_up (length (requests (trace example_page)))
              (uploadRequest example_config example_blob) = Resolved ?created"
    by (simp add: service_up_def)
  have ren: "item_endpoint service_up (Suc (length (requests (trace example_page))))
               (updateRequest example_config
                  (file_id \<lparr>file_id = str ''7'', file_name = str ''Untitled'',
                     file_mimeType = str ''text/plain''\<rparr>) (blob_name example_blob)) = Resolved ?renamed"
    by (simp add: service_up_def)
  have ok: "ok ?created" "json ?created = Inr \<lparr>file_id = str ''7'', file_name = str ''Untitled'',
                     file_mimeType = str ''text/plain''\<rparr>" "ok ?renamed"
    by simp_all
  have start: "trace example_page = []"
    by (simp add: example_page_def)
  note run = upload_then_rename [OF sel up ok(1) ok(2) ren ok(3)]
  from run have "fst (handleUpload example_config service_up example_page) = Inr ()"
    by (rule conjunct1)
  moreover from run [THEN conjunct2, THEN conjunct1]
  have "requests (trace (snd (handleUpload example_config service_up example_page))) =
     [uploadRequest example_config example_blob,
      updateRequest example_config (str ''7'') (str ''notes.txt'')]"
    by (simp add: start name)
  moreover from run have "fileInput_files (snd (handleUpload example_config service_up example_page)) = []"
    by blast
  ultimately show ?thesis
    using sel name by simp
qed

section \<open>Failed requests\<close>

text \<open>
  Each controller action on a response that is not \<^verbatim>\<open>ok\<close>: the page it ends in. The
  \<^verbatim>\<open>catch\<close> block shows the message of the error, the \<^verbatim>\<open>finally\<close> block clears the
  busy flag, and the statements after the failed call are skipped.
\<close>

lemma trim_Nil [simp]: "trim [] = []"
  by (simp add: trim_def)

lemma showError_after_busy:
  "notices (trace (toggleLoading False (showError msg (toggleLoading True w\<lparr>trace := trace w @ Loading True # map Fetched calls\<rparr>))))
     = notices (trace w) @ [msg] \<and>
   errorBox_innerText (toggleLoading False (showError msg (toggleLoading True w\<lparr>trace := trace w @ Loading True # map Fetched calls\<rparr>)))
     = msg \<and>
   \<not> errorBox_hidden (toggleLoading False (showError msg (toggleLoading True w\<lparr>trace := trace w @ Loading True # map Fetched calls\<rparr>))) \<and>
   unhandled (toggleLoading False (showError msg (toggleLoading True w\<lparr>trace := trace w @ Loading True # map Fetched calls\<rparr>)))
     = unhandled w"
proof -
  have "notices (map Fetched calls) = []"
    by (induction calls) simp_all
  then show ?thesis
    by (simp add: toggleLoading_def showError_def)
qed

lemma search_fails:
  assumes nonblank: "trim (searchInput_value w) \<noteq> []"
    and enc: "encodeURIComponent
           (str ''name contains '' @ [0x27] @ trim (searchInput_value w) @ [0x27]
              @ str '' and trashed = false'') = Some query"
    and resp: "list_endpoint env (length (requests (trace w))) (searchRequest CONFIG query) = Resolved response"
    and bad: "\<not> ok response"
  shows "handleSearch CONFIG env w =
     (Inr (), toggleLoading False (showError (str ''Failed to fetch files.'')
        (toggleLoading True w\<lparr>trace := trace w @ Loading True # map Fetched [searchRequest CONFIG query]\<rparr>)))"
proof -
  let ?w1 = "toggleLoading True w"
  have "list_endpoint env (length (requests (trace ?w1))) (searchRequest CONFIG query) = Resolved response"
    using resp by simp
  from apiSearchFiles_Resolved [OF enc this] bad
  have "apiSearchFiles CONFIG env (trim (searchInput_value w)) ?w1 =
          (Inl (Error (str ''Failed to fetch files.'')),
           ?w1\<lparr>trace := trace w @ Loading True # map Fetched [searchRequest CONFIG query]\<rparr>)"
    by (simp add: toggleLoading_trace)
  from handleSearch_awaits [OF nonblank this] show ?thesis
    by (simp add: handleSearch_resume_Inl)
qed

lemma upload_fails:
  assumes sel: "fileInput_files w = file # others"
    and resp: "upload_endpoint env (length (requests (trace w))) (uploadRequest CONFIG file) = Resolved response"
    and bad: "\<not> ok response"
  shows "handleUpload CONFIG env w =
     (Inr (), toggleLoading False (showError (str ''Upload failed.'')
        (toggleLoading True w\<lparr>trace := trace w @ Loading True # map Fetched [uploadRequest CONFIG file]\<rparr>)))"
proof -
  let ?w1 = "toggleLoading True w"
  have "upload_endpoint env (length (requests (trace ?w1))) (uploadRequest CONFIG file) = Resolved response"
    using resp by simp
  from apiUploadFile_Resolved [OF this] bad
  have a: "apiUploadFile CONFIG env file ?w1 =
          (Inl (Error (str ''Upload failed.'')),
           ?w1\<lparr>trace := trace w @ Loading True # map Fetched [uploadRequest CONFIG file]\<rparr>)"
    by (simp add: toggleLoading_trace)
  show ?thesis
    by (simp add: handleUpload_runs [OF sel] try_catch_finally_def bind_js_def void_def a)
qed

lemma upload_rename_fails:
  assumes sel: "fileInput_files w = file # others"
    and up: "upload_endpoint env (length (requests (trace w))) (uploadRequest CONFIG file)
               = Resolved created"
    and ok_up: "ok created" "json created = Inr uploadedFile"
    and ren: "item_endpoint env (Suc (length (requests (trace w))))
                (updateRequest CONFIG (file_id uploadedFile) (blob_name file)) = Resolved renamed"
    and bad: "\<not> ok renamed"
  shows "handleUpload CONFIG env w =
     (Inr (), toggleLoading False (showError (str ''Update failed.'')
        (toggleLoading True w\<lparr>trace := trace w @ Loading True #
           map Fetched [uploadRequest CONFIG file,
                        updateRequest CONFIG (file_id uploadedFile) (blob_name file)]\<rparr>)))"
proof -
  let ?w1 = "toggleLoading True w"
  let ?w2 = "?w1\<lparr>trace := trace w @ [Loading True, Fetched (uploadRequest CONFIG file)]\<rparr>"
  let ?w3 = "?w1\<lparr>trace := trace w @ Loading True #
               map Fetched [uploadRequest CONFIG file,
                            updateRequest CONFIG (file_id uploadedFile) (blob_name file)]\<rparr>"
  have "upload_endpoint env (length (requests (trace ?w1))) (uploadRequest CONFIG file) = Resolved created"
    using up by simp
  from apiUploadFile_Resolved [OF this] ok_up
  have a: "apiUploadFile CONFIG env file ?w1 = (Inr uploadedFile, ?w2)"
    by (simp add: toggleLoading_trace)
  have "item_endpoint env (length (requests (trace ?w2)))
          (updateRequest CONFIG (file_id uploadedFile) (blob_name file)) = Resolved renamed"
    using ren by simp
  from apiUpdateFile_Resolved [OF this] bad
  have b: "apiUpdateFile CONFIG env (file_id uploadedFile) (blob_name file) ?w2 =
             (Inl (Error (str ''Update failed.'')), ?w3)"
    by simp
  show ?thesis
    by (simp add: handleUpload_runs [OF sel] try_catch_finally_def bind_js_def void_def a b)
qed

lemma edit_fails:
  assumes name: "trim newName \<noteq> []"
    and resp: "item_endpoint env (length (requests (trace w)))
                 (updateRequest CONFIG (data_id btn) (trim newName)) = Resolved response"
    and bad: "\<not> ok response"
  shows "editBtn_onclick CONFIG env btn (Some newName) w =
     (Inr (), toggleLoading False (showError (str ''Update failed.'')
        (toggleLoading True w\<lparr>trace := trace w @ Loading True #
           map Fetched [updateRequest CONFIG (data_id btn) (trim newName)]\<rparr>)))"
proof -
  let ?w1 = "toggleLoading True w"
  from name have given: "newName \<noteq> []"
    by auto
  have "item_endpoint env (length (requests (trace ?w1)))
          (updateRequest CONFIG (data_id btn) (trim newName)) = Resolved response"
    using resp by simp
  from apiUpdateFile_Resolved [OF this] bad
  have a: "apiUpdateFile CONFIG env (data_id btn) (trim newName) ?w1 =
          (Inl (Error (str ''Update failed.'')),
           ?w1\<lparr>trace := trace w @ Loading True #
              map Fetched [updateRequest CONFIG (data_id btn) (trim newName)]\<rparr>)"
    by (simp add: toggleLoading_trace)
  show ?thesis
    by (simp add: editBtn_onclick_def name given try_catch_finally_def bind_js_def void_def
        return_js_def a)
qed

lemma delete_fails:
  assumes resp: "item_endpoint env (length (requests (trace w)))
                 (deleteRequest CONFIG (data_id btn)) = Resolved response"
    and bad: "\<not> ok response"
  shows "deleteBtn_onclick CONFIG env btn True w =
     (Inr (), toggleLoading False (showError (str ''Delete failed.'')
        (toggleLoading True w\<lparr>trace := trace w @ Loading True #
           map Fetched [deleteRequest CONFIG (data_id btn)]\<rparr>)))"
proof -
  let ?w1 = "toggleLoading True w"
  have "item_endpoint env (length (requests (trace ?w1)))
          (deleteRequest CONFIG (data_id btn)) = Resolved response"
    using resp by simp
  from apiDeleteFile_Resolved [OF this] bad
  have a: "apiDeleteFile CONFIG env (data_id btn) ?w1 =
          (Inl (Error (str ''Delete failed.'')),
           ?w1\<lparr>trace := trace w @ Loading True #
              map Fetched [deleteRequest CONFIG (data_id btn)]\<rparr>)"
    by (simp add: toggleLoading_trace)
  show ?thesis
    by (simp add: deleteBtn_onclick_def try_catch_finally_def bind_js_def void_def
        return_js_def a)
qed

lemma notified_once:
  assumes "run = (Inr (), toggleLoading False (showError msg
              (toggleLoading True w\<lparr>trace := trace w @ Loading True # map Fetched calls\<rparr>)))"
  shows "fst run = Inr () \<and> notices (trace (snd run)) = notices (trace w) @ [msg] \<and>
         errorBox_innerText (snd run) = msg \<and> \<not> errorBox_hidden (snd run) \<and>
         unhandled (snd run) = unhandled w"
  using showError_after_busy [of msg w calls] by (simp add: assms)

text \<open>
  A card handler whose own call succeeds goes on to \<^verbatim>\<open>handleSearch()\<close>, not awaited: when
  that search is answered with a response that is not \<^verbatim>\<open>ok\<close>, the handler's
  \<^verbatim>\<open>finally\<close> block runs first and the detached second part of the search then shows its
  notice.
\<close>

lemma toggleLoading_searchInput [simp]:
  "searchInput_value (toggleLoading b w) = searchInput_value w"
  by (simp add: toggleLoading_def)

lemma refresh_fails:
  assumes nonblank: "trim (searchInput_value w) \<noteq> []"
    and enc: "encodeURIComponent
           (str ''name contains '' @ [0x27] @ trim (searchInput_value w) @ [0x27]
              @ str '' and trashed = false'') = Some query"
    and resp: "list_endpoint env (Suc (length (requests (trace w)))) (searchRequest CONFIG query)
                 = Resolved response"
    and bad: "\<not> ok response"
    and call: "api (toggleLoading True w) = (Inr (), toggleLoading True w\<lparr>trace := trace w @ [Loading True, Fetched req]\<rparr>)"
  shows "(case try_catch_finally
                (bind_js api (\<lambda>u. handleSearch_begin CONFIG env))
                (\<lambda>err. bind_js (void (showError (message err))) (\<lambda>u. return_js None))
                (void (toggleLoading False))
                (toggleLoading True w) of
           (Inl e, w') \<Rightarrow> (Inl e, w')
         | (Inr None, w') \<Rightarrow> (Inr (), w')
         | (Inr (Some awaited), w') \<Rightarrow> (Inr (), detach (handleSearch_resume awaited) w'))
     = (Inr (),
        toggleLoading False (showError (str ''Failed to fetch files.'')
          (toggleLoading True w\<lparr>trace := trace w @
             [Loading True, Fetched req, Loading True, Fetched (searchRequest CONFIG query),
              Loading False],
             loader_hidden := True, searchBtn_disabled := False, uploadBtn_disabled := False\<rparr>)))"
proof -
  let ?w2 = "toggleLoading True w\<lparr>trace := trace w @ [Loading True, Fetched req]\<rparr>"
  let ?w3 = "toggleLoading True ?w2"
  let ?w4 = "?w3\<lparr>trace := trace w @
               [Loading True, Fetched req, Loading True, Fetched (searchRequest CONFIG query)]\<rparr>"
  have "list_endpoint env (length (requests (trace ?w3))) (searchRequest CONFIG query) = Resolved response"
    using resp by simp
  from apiSearchFiles_Resolved [OF enc this] bad
  have "apiSearchFiles CONFIG env (trim (searchInput_value w)) ?w3 =
          (Inl (Error (str ''Failed to fetch files.'')), ?w4)"
    by (simp add: toggleLoading_trace)
  with nonblank have started: "handleSearch_begin CONFIG env ?w2 =
      (Inr (Some (Inl (Error (str ''Failed to fetch files.'')))), ?w4)"
    by (simp add: handleSearch_begin_def)
  show ?thesis
    by (simp add: try_catch_finally_def bind_js_def void_def call started detach_def
        handleSearch_resume_Inl)
      (simp add: toggleLoading_def showError_def)
qed

lemma delete_then_refresh_fails:
  assumes del: "item_endpoint env (length (requests (trace w))) (deleteRequest CONFIG (data_id btn))
                  = Resolved deleted"
    and ok_del: "ok deleted"
    and nonblank: "trim (searchInput_value w) \<noteq> []"
    and enc: "encodeURIComponent
           (str ''name contains '' @ [0x27] @ trim (searchInput_value w) @ [0x27]
              @ str '' and trashed = false'') = Some query"
    and resp: "list_endpoint env (Suc (length (requests (trace w)))) (searchRequest CONFIG query)
                 = Resolved response"
    and bad: "\<not> ok response"
  shows "fst (deleteBtn_onclick CONFIG env btn True w) = Inr () \<and>
         notices (trace (snd (deleteBtn_onclick CONFIG env btn True w))) =
           notices (trace w) @ [str ''Failed to fetch files.''] \<and>
         errorBox_innerText (snd (deleteBtn_onclick CONFIG env btn True w)) = str ''Failed to fetch files.'' \<and>
         \<not> errorBox_hidden (snd (deleteBtn_onclick CONFIG env btn True w)) \<and>
         unhandled (snd (deleteBtn_onclick CONFIG env btn True w)) = unhandled w"
proof -
  let ?w1 = "toggleLoading True w"
  have "item_endpoint env (length (requests (trace ?w1))) (deleteRequest CONFIG (data_id btn))
          = Resolved deleted"
    using del by simp
  from apiDeleteFile_Resolved [OF this] ok_del
  have "apiDeleteFile CONFIG env (data_id btn) ?w1 =
          (Inr (), ?w1\<lparr>trace := trace w @ [Loading True, Fetched (deleteRequest CONFIG (data_id btn))]\<rparr>)"
    by (simp add: toggleLoading_trace)
  from refresh_fails [where api = "apiDeleteFile CONFIG env (data_id btn)",
      OF nonblank enc resp bad this]
  show ?thesis
    by (simp add: deleteBtn_onclick_def) (simp add: toggleLoading_def showError_def)
qed

lemma edit_then_refresh_fails:
  assumes name: "trim newName \<noteq> []"
    and upd: "item_endpoint env (length (requests (trace w)))
                (updateRequest CONFIG (data_id btn) (trim newName)) = Resolved updated"
    and ok_upd: "ok updated"
    and nonblank: "trim (searchInput_value w) \<noteq> []"
    and enc: "encodeURIComponent
           (str ''name contains '' @ [0x27] @ trim (searchInput_value w) @ [0x27]
              @ str '' and trashed = false'') = Some query"
    and resp: "list_endpoint env (Suc (length (requests (trace w)))) (searchRequest CONFIG query)
                 = Resolved response"
    and bad: "\<not> ok response"
  shows "fst (editBtn_onclick CONFIG env btn (Some newName) w) = Inr () \<and>
         notices (trace (snd (editBtn_onclick CONFIG env btn (Some newName) w))) =
           notices (trace w) @ [str ''Failed to fetch files.''] \<and>
         errorBox_innerText (snd (editBtn_onclick CONFIG env btn (Some newName) w)) = str ''Failed to fetch files.'' \<and>
         \<not> errorBox_hidden (snd (editBtn_onclick CONFIG env btn (Some newName) w)) \<and>
         unhandled (snd (editBtn_onclick CONFIG env btn (Some newName) w)) = unhandled w"
proof -
  let ?w1 = "toggleLoading True w"
  from name have given: "newName \<noteq> []"
    by auto
  have "item_endpoint env (length (requests (trace ?w1)))
          (updateRequest CONFIG (data_id btn) (trim newName)) = Resolved updated"
    using upd by simp
  from apiUpdateFile_Resolved [OF this] ok_upd
  have "apiUpdateFile CONFIG env (data_id btn) (trim newName) ?w1 =
          (Inr (), ?w1\<lparr>trace := trace w @
             [Loading True, Fetched (updateRequest CONFIG (data_id btn) (trim newName))]\<rparr>)"
    by (simp add: toggleLoading_trace)
  from refresh_fails [where api = "apiUpdateFile CONFIG env (data_id btn) (trim newName)",
      OF nonblank enc resp bad this]
  show ?thesis
    by (simp add: editBtn_onclick_def name given) (simp add: toggleLoading_def showError_def)
qed

text \<open>
  C1. For each of the four operations, on a response that is not \<^verbatim>\<open>ok\<close> the API
  function throws an error with the operation's fixed message: \<^verbatim>\<open>Failed to fetch files.\<close>,
  \<^verbatim>\<open>Upload failed.\<close>, \<^verbatim>\<open>Update failed.\<close>, \<^verbatim>\<open>Delete failed.\<close> (first four
  conjuncts, on any page). The controller action that made the call then completes
  normally, adds exactly one notice, which is that message, and leaves no rejected promise
  behind: the search, the upload at its first call, the upload at its rename call, the
  Rename button, the Delete button and, last two conjuncts, the search that the Rename
  and the Delete button start after their own call succeeded.
\<close>

theorem request_failures_notified_once:
  "(encodeURIComponent
      (str ''name contains '' @ [0x27] @ t @ [0x27] @ str '' and trashed = false'') = Some query \<and>
    list_endpoint env (length (requests (trace w0))) (searchRequest CONFIG query) = Resolved listed \<and>
    \<not> ok listed \<longrightarrow>
      fst (apiSearchFiles CONFIG env t w0) = Inl (Error (str ''Failed to fetch files.''))) \<and>
   (upload_endpoint env (length (requests (trace w0))) (uploadRequest CONFIG file) = Resolved created \<and>
    \<not> ok created \<longrightarrow>
      fst (apiUploadFile CONFIG env file w0) = Inl (Error (str ''Upload failed.''))) \<and>
   (item_endpoint env (length (requests (trace w0))) (updateRequest CONFIG fileId newName) = Resolved updated \<and>
    \<not> ok updated \<longrightarrow>
      fst (apiUpdateFile CONFIG env fileId newName w0) = Inl (Error (str ''Update failed.''))) \<and>
   (item_endpoint env (length (requests (trace w0))) (deleteRequest CONFIG fileId) = Resolved deleted \<and>
    \<not> ok deleted \<longrightarrow>
      fst (apiDeleteFile CONFIG env fileId w0) = Inl (Error (str ''Delete failed.''))) \<and>
   (trim (searchInput_value w) \<noteq> [] \<and>
    encodeURIComponent
      (str ''name contains '' @ [0x27] @ trim (searchInput_value w) @ [0x27]
         @ str '' and trashed = false'') = Some q \<and>
    list_endpoint env (length (requests (trace w))) (searchRequest CONFIG q) = Resolved r1 \<and>
    \<not> ok r1 \<longrightarrow>
      fst (handleSearch CONFIG env w) = Inr () \<and>
      notices (trace (snd (handleSearch CONFIG env w))) =
        notices (trace w) @ [str ''Failed to fetch files.''] \<and>
      errorBox_innerText (snd (handleSearch CONFIG env w)) = str ''Failed to fetch files.'' \<and>
      \<not> errorBox_hidden (snd (handleSearch CONFIG env w)) \<and>
      unhandled (snd (handleSearch CONFIG env w)) = unhandled w) \<and>
   (fileInput_files w = selected # others \<and>
    upload_endpoint env (length (requests (trace w))) (uploadRequest CONFIG selected) = Resolved r2 \<and>
    \<not> ok r2 \<longrightarrow>
      fst (handleUpload CONFIG env w) = Inr () \<and>
      notices (trace (snd (handleUpload CONFIG env w))) = notices (trace w) @ [str ''Upload failed.''] \<and>
      errorBox_innerText (snd (handleUpload CONFIG env w)) = str ''Upload failed.'' \<and>
      \<not> errorBox_hidden (snd (handleUpload CONFIG env w)) \<and>
      unhandled (snd (handleUpload CONFIG env w)) = unhandled w) \<and>
   (fileInput_files w = selected # others \<and>
    upload_endpoint env (length (requests (trace w))) (uploadRequest CONFIG selected) = Resolved r3 \<and>
    ok r3 \<and> json r3 = Inr uploadedFile \<and>
    item_endpoint env (Suc (length (requests (trace w))))
      (updateRequest CONFIG (file_id uploadedFile) (blob_name selected)) = Resolved r4 \<and>
    \<not> ok r4 \<longrightarrow>
      fst (handleUpload CONFIG env w) = Inr () \<and>
      notices (trace (snd (handleUpload CONFIG env w))) = notices (trace w) @ [str ''Update failed.''] \<and>
      errorBox_innerText (snd (handleUpload CONFIG env w)) = str ''Update failed.'' \<and>
      \<not> errorBox_hidden (snd (handleUpload CONFIG env w)) \<and>
      unhandled (snd (handleUpload CONFIG env w)) = unhandled w) \<and>
   (trim answer \<noteq> [] \<and>
    item_endpoint env (length (requests (trace w)))
      (updateRequest CONFIG (data_id btn) (trim answer)) = Resolved r5 \<and>
    \<not> ok r5 \<longrightarrow>
      fst (editBtn_onclick CONFIG env btn (Some answer) w) = Inr () \<and>
      notices (trace (snd (editBtn_onclick CONFIG env btn (Some answer) w))) =
        notices (trace w) @ [str ''Update failed.''] \<and>
      errorBox_innerText (snd (editBtn_onclick CONFIG env btn (Some answer) w)) = str ''Update failed.'' \<and>
      \<not> errorBox_hidden (snd (editBtn_onclick CONFIG env btn (Some answer) w)) \<and>
      unhandled (snd (editBtn_onclick CONFIG env btn (Some answer) w)) = unhandled w) \<and>
   (item_endpoint env (length (requests (trace w))) (deleteRequest CONFIG (data_id btn)) = Resolved r6 \<and>
    \<not> ok r6 \<longrightarrow>
      fst (deleteBtn_onclick CONFIG env btn True w) = Inr () \<and>
      notices (trace (snd (deleteBtn_onclick CONFIG env btn True w))) =
        notices (trace w) @ [str ''Delete failed.''] \<and>
      errorBox_innerText (snd (deleteBtn_onclick CONFIG env btn True w)) = str ''Delete failed.'' \<and>
      \<not> errorBox_hidden (snd (deleteBtn_onclick CONFIG env btn True w)) \<and>
      unhandled (snd (deleteBtn_onclick CONFIG env btn True w)) = unhandled w) \<and>
   (trim answer \<noteq> [] \<and>
    item_endpoint env (length (requests (trace w)))
      (updateRequest CONFIG (data_id btn) (trim answer)) = Resolved r7 \<and>
    ok r7 \<and>
    trim (searchInput_value w) \<noteq> [] \<and>
    encodeURIComponent
      (str ''name contains '' @ [0x27] @ trim (searchInput_value w) @ [0x27]
         @ str '' and trashed = false'') = Some q \<and>
    list_endpoint env (Suc (length (requests (trace w)))) (searchRequest CONFIG q) = Resolved r8 \<and>
    \<not> ok r8 \<longrightarrow>
      fst (editBtn_onclick CONFIG env btn (Some answer) w) = Inr () \<and>
      notices (trace (snd (editBtn_onclick CONFIG env btn (Some answer) w))) =
        notices (trace w) @ [str ''Failed to fetch files.''] \<and>
      errorBox_innerText (snd (editBtn_onclick CONFIG env btn (Some answer) w)) = str ''Failed to fetch files.'' \<and>
      \<not> errorBox_hidden (snd (editBtn_onclick CONFIG env btn (Some answer) w)) \<and>
      unhandled (snd (editBtn_onclick CONFIG env btn (Some answer) w)) = unhandled w) \<and>
   (item_endpoint env (length (requests (trace w))) (deleteRequest CONFIG (data_id btn)) = Resolved r9 \<and>
    ok r9 \<and>
    trim (searchInput_value w) \<noteq> [] \<and>
    encodeURIComponent
      (str ''name contains '' @ [0x27] @ trim (searchInput_value w) @ [0x27]
         @ str '' and trashed = false'') = Some q \<and>
    list_endpoint env (Suc (length (requests (trace w)))) (searchRequest CONFIG q) = Resolved r10 \<and>
    \<not> ok r10 \<longrightarrow>
      fst (deleteBtn_onclick CONFIG env btn True w) = Inr () \<and>
      notices (trace (snd (deleteBtn_onclick CONFIG env btn True w))) =
        notices (trace w) @ [str ''Failed to fetch files.''] \<and>
      errorBox_innerText (snd (deleteBtn_onclick CONFIG env btn True w)) = str ''Failed to fetch files.'' \<and>
      \<not> errorBox_hidden (snd (deleteBtn_onclick CONFIG env btn True w)) \<and>
      unhandled (snd (deleteBtn_onclick CONFIG env btn True w)) = unhandled w)"
proof -
  have search: "fst (apiSearchFiles CONFIG env t w0) = Inl (Error (str ''Failed to fetch files.''))"
    if "encodeURIComponent
          (str ''name contains '' @ [0x27] @ t @ [0x27] @ str '' and trashed = false'') = Some query"
      "list_endpoint env (length (requests (trace w0))) (searchRequest CONFIG query) = Resolved listed"
      "\<not> ok listed"
    using that(3) by (simp add: apiSearchFiles_Resolved [OF that(1,2)])
  have upload: "fst (apiUploadFile CONFIG env file w0) = Inl (Error (str ''Upload failed.''))"
    if "upload_endpoint env (length (requests (trace w0))) (uploadRequest CONFIG file) = Resolved created"
      "\<not> ok created"
    using that(2) by (simp add: apiUploadFile_Resolved [OF that(1)])
  have update: "fst (apiUpdateFile CONFIG env fileId newName w0) = Inl (Error (str ''Update failed.''))"
    if "item_endpoint env (length (requests (trace w0))) (updateRequest CONFIG fileId newName) = Resolved updated"
      "\<not> ok updated"
    using that(2) by (simp add: apiUpdateFile_Resolved [OF that(1)])
  have delete: "fst (apiDeleteFile CONFIG env fileId w0) = Inl (Error (str ''Delete failed.''))"
    if "item_endpoint env (length (requests (trace w0))) (deleteRequest CONFIG fileId) = Resolved deleted"
      "\<not> ok deleted"
    using that(2) by (simp add: apiDeleteFile_Resolved [OF that(1)])
  show ?thesis
  proof (intro conjI impI; elim conjE)
    show "fst (handleSearch CONFIG env w) = Inr ()"
      "notices (trace (snd (handleSearch CONFIG env w))) =
         notices (trace w) @ [str ''Failed to fetch files.'']"
      "errorBox_innerText (snd (handleSearch CONFIG env w)) = str ''Failed to fetch files.''"
      "\<not> errorBox_hidden (snd (handleSearch CONFIG env w))"
      "unhandled (snd (handleSearch CONFIG env w)) = unhandled w"
      if "trim (searchInput_value w) \<noteq> []"
        "encodeURIComponent
           (str ''name contains '' @ [0x27] @ trim (searchInput_value w) @ [0x27]
              @ str '' and trashed = false'') = Some q"
        "list_endpoint env (length (requests (trace w))) (searchRequest CONFIG q) = Resolved r1"
        "\<not> ok r1"
      using notified_once [OF search_fails [OF that]] by blast+
    show "fst (handleUpload CONFIG env w) = Inr ()"
      "notices (trace (snd (handleUpload CONFIG env w))) = notices (trace w) @ [str ''Upload failed.'']"
      "errorBox_innerText (snd (handleUpload CONFIG env w)) = str ''Upload failed.''"
      "\<not> errorBox_hidden (snd (handleUpload CONFIG env w))"
      "unhandled (snd (handleUpload CONFIG env w)) = unhandled w"
      if "fileInput_files w = selected # others"
        "upload_endpoint env (length (requests (trace w))) (uploadRequest CONFIG selected) = Resolved r2"
        "\<not> ok r2"
      using notified_once [OF upload_fails [OF that]] by blast+
    show "fst (handleUpload CONFIG env w) = Inr ()"
      "notices (trace (snd (handleUpload CONFIG env w))) = notices (trace w) @ [str ''Update failed.'']"
      "errorBox_innerText (snd (handleUpload CONFIG env w)) = str ''Update failed.''"
      "\<not> errorBox_hidden (snd (handleUpload CONFIG env w))"
      "unhandled (snd (handleUpload CONFIG env w)) = unhandled w"
      if "fileInput_files w = selected # others"
        "upload_endpoint env (length (requests (trace w))) (uploadRequest CONFIG selected) = Resolved r3"
        "ok r3" "json r3 = Inr uploadedFile"
        "item_endpoint env (Suc (length (requests (trace w))))
           (updateRequest CONFIG (file_id uploadedFile) (blob_name selected)) = Resolved r4"
        "\<not> ok r4"
      using notified_once [OF upload_rename_fails [OF that]] by blast+
    show "fst (editBtn_onclick CONFIG env btn (Some answer) w) = Inr ()"
      "notices (trace (snd (editBtn_onclick CONFIG env btn (Some answer) w))) =
         notices (trace w) @ [str ''Update failed.'']"
      "errorBox_innerText (snd (editBtn_onclick CONFIG env btn (Some answer) w)) = str ''Update failed.''"
      "\<not> errorBox_hidden (snd (editBtn_onclick CONFIG env btn (Some answer) w))"
      "unhandled (snd (editBtn_onclick CONFIG env btn (Some answer) w)) = unhandled w"
      if "trim answer \<noteq> []"
        "item_endpoint env (length (requests (trace w)))
           (updateRequest CONFIG (data_id btn) (trim answer)) = Resolved r5"
        "\<not> ok r5"
      using notified_once [OF edit_fails [OF that]] by blast+
    show "fst (deleteBtn_onclick CONFIG env btn True w) = Inr ()"
      "notices (trace (snd (deleteBtn_onclick CONFIG env btn True w))) =
         notices (trace w) @ [str ''Delete failed.'']"
      "errorBox_innerText (snd (deleteBtn_onclick CONFIG env btn True w)) = str ''Delete failed.''"
      "\<not> errorBox_hidden (snd (deleteBtn_onclick CONFIG env btn True w))"
      "unhandled (snd (deleteBtn_onclick CONFIG env btn True w)) = unhandled w"
      if "item_endpoint env (length (requests (trace w))) (deleteRequest CONFIG (data_id btn)) = Resolved r6"
        "\<not> ok r6"
      using notified_once [OF delete_fails [OF that]] by blast+
    show "fst (editBtn_onclick CONFIG env btn (Some answer) w) = Inr ()"
      "notices (trace (snd (editBtn_onclick CONFIG env btn (Some answer) w))) =
         notices (trace w) @ [str ''Failed to fetch files.'']"
      "errorBox_innerText (snd (editBtn_onclick CONFIG env btn (Some answer) w)) = str ''Failed to fetch files.''"
      "\<not> errorBox_hidden (snd (editBtn_onclick CONFIG env btn (Some answer) w))"
      "unhandled (snd (editBtn_onclick CONFIG env btn (Some answer) w)) = unhandled w"
      if "trim answer \<noteq> []"
        "item_endpoint env (length (requests (trace w)))
           (updateRequest CONFIG (data_id btn) (trim answer)) = Resolved r7"
        "ok r7"
        "trim (searchInput_value w) \<noteq> []"
        "encodeURIComponent
           (str ''name contains '' @ [0x27] @ trim (searchInput_value w) @ [0x27]
              @ str '' and trashed = false'') = Some q"
        "list_endpoint env (Suc (length (requests (trace w)))) (searchRequest CONFIG q) = Resolved r8"
        "\<not> ok r8"
      using edit_then_refresh_fails [OF that] by blast+
    show "fst (deleteBtn_onclick CONFIG env btn True w) = Inr ()"
      "notices (trace (snd (deleteBtn_onclick CONFIG env btn True w))) =
         notices (trace w) @ [str ''Failed to fetch files.'']"
      "errorBox_innerText (snd (deleteBtn_onclick CONFIG env btn True w)) = str ''Failed to fetch files.''"
      "\<not> errorBox_hidden (snd (deleteBtn_onclick CONFIG env btn True w))"
      "unhandled (snd (deleteBtn_onclick CONFIG env btn True w)) = unhandled w"
      if "item_endpoint env (length (requests (trace w))) (deleteRequest CONFIG (data_id btn)) = Resolved r9"
        "ok r9"
        "trim (searchInput_value w) \<noteq> []"
        "encodeURIComponent
           (str ''name contains '' @ [0x27] @ trim (searchInput_value w) @ [0x27]
              @ str '' and trashed = false'') = Some q"
        "list_endpoint env (Suc (length (requests (trace w)))) (searchRequest CONFIG q) = Resolved r10"
        "\<not> ok r10"
      using delete_then_refresh_fails [OF that] by blast+
  qed (rule search upload update delete; assumption)+
qed

theorem request_failures_notified_once_witness:
  "fst (apiSearchFiles example_config service_down (str ''report'') example_page)
     = Inl (Error (str ''Failed to fetch files.'')) \<and>
   fst (apiUploadFile example_config service_down example_blob example_page)
     = Inl (Error (str ''Upload failed.'')) \<and>
   fst (apiUpdateFile example_config service_down (str ''1'') (str ''plan.pdf'') example_page)
     = Inl (Error (str ''Update failed.'')) \<and>
   fst (apiDeleteFile example_config service_down (str ''1'') example_page)
     = Inl (Error (str ''Delete failed.'')) \<and>
   notices (trace (snd (handleSearch example_config service_down example_page)))
     = [str ''Failed to fetch files.''] \<and>
   errorBox_innerText (snd (handleSearch example_config service_down example_page)) = str ''Failed to fetch files.'' \<and>
   \<not> errorBox_hidden (snd (handleSearch example_config service_down example_page)) \<and>
   notices (trace (snd (handleUpload example_config service_down example_page)))
     = [str ''Upload failed.''] \<and>
   errorBox_innerText (snd (handleUpload example_config service_down example_page)) = str ''Upload failed.'' \<and>
   \<not> errorBox_hidden (snd (handleUpload example_config service_down example_page)) \<and>
   notices (trace (snd (handleUpload example_config
       (service_up\<lparr>item_endpoint := item_endpoint service_down\<rparr>) example_page)))
     = [str ''Update failed.''] \<and>
   errorBox_innerText (snd (handleUpload example_config
       (service_up\<lparr>item_endpoint := item_endpoint service_down\<rparr>) example_page)) = str ''Update failed.'' \<and>
   \<not> errorBox_hidden (snd (handleUpload example_config
       (service_up\<lparr>item_endpoint := item_endpoint service_down\<rparr>) example_page)) \<and>
   notices (trace (snd (editBtn_onclick example_config service_down
       \<lparr>data_id = str ''1'', data_name = str ''report.pdf''\<rparr> (Some (str '' plan.pdf '')) example_page)))
     = [str ''Update failed.''] \<and>
   errorBox_innerText (snd (editBtn_onclick example_config service_down
       \<lparr>data_id = str ''1'', data_name = str ''report.pdf''\<rparr> (Some (str '' plan.pdf '')) example_page)) = str ''Update failed.'' \<and>
   \<not> errorBox_hidden (snd (editBtn_onclick example_config service_down
       \<lparr>data_id = str ''1'', data_name = str ''report.pdf''\<rparr> (Some (str '' plan.pdf '')) example_page)) \<and>
   notices (trace (snd (deleteBtn_onclick example_config service_down
       \<lparr>data_id = str ''1'', data_name = str ''report.pdf''\<rparr> True example_page)))
     = [str ''Delete failed.''] \<and>
   errorBox_innerText (snd (deleteBtn_onclick example_config service_down
       \<lparr>data_id = str ''1'', data_name = str ''report.pdf''\<rparr> True example_page)) = str ''Delete failed.'' \<and>
   \<not> errorBox_hidden (snd (deleteBtn_onclick example_config service_down
       \<lparr>data_id = str ''1'', data_name = str ''report.pdf''\<rparr> True example_page)) \<and>
   notices (trace (snd (editBtn_onclick example_config
       (service_down\<lparr>item_endpoint := item_endpoint service_up\<rparr>)
       \<lparr>data_id = str ''1'', data_name = str ''report.pdf''\<rparr> (Some (str '' plan.pdf '')) example_page)))
     = [str ''Failed to fetch files.''] \<and>
   errorBox_innerText (snd (editBtn_onclick example_config
       (service_down\<lparr>item_endpoint := item_endpoint service_up\<rparr>)
       \<lparr>data_id = str ''1'', data_name = str ''report.pdf''\<rparr> (Some (str '' plan.pdf '')) example_page)) = str ''Failed to fetch files.'' \<and>
   \<not> errorBox_hidden (snd (editBtn_onclick example_config
       (service_down\<lparr>item_endpoint := item_endpoint service_up\<rparr>)
       \<lparr>data_id = str ''1'', data_name = str ''report.pdf''\<rparr> (Some (str '' plan.pdf '')) example_page)) \<and>
   notices (trace (snd (deleteBtn_onclick example_config
       (service_down\<lparr>item_endpoint := item_endpoint service_up\<rparr>)
       \<lparr>data_id = str ''1'', data_name = str ''report.pdf''\<rparr> True example_page)))
     = [str ''Failed to fetch files.''] \<and>
   errorBox_innerText (snd (deleteBtn_onclick example_config
       (service_down\<lparr>item_endpoint := item_endpoint service_up\<rparr>)
       \<lparr>data_id = str ''1'', data_name = str ''report.pdf''\<rparr> True example_page)) = str ''Failed to fetch files.'' \<and>
   \<not> errorBox_hidden (snd (deleteBtn_onclick example_config
       (service_down\<lparr>item_endpoint := item_endpoint service_up\<rparr>)
       \<lparr>data_id = str ''1'', data_name = str ''report.pdf''\<rparr> True example_page))"
proof -
  let ?query = "str ''name%20contains%20'report'%20and%20trashed%20%3D%20false''"
  let ?btn = "\<lparr>data_id = str ''1'', data_name = str ''report.pdf''\<rparr>"
  let ?half = "service_up\<lparr>item_endpoint := item_endpoint service_down\<rparr>"
  let ?stale = "service_down\<lparr>item_endpoint := item_endpoint service_up\<rparr>"
  let ?done = "\<lparr>ok = True, json = Inr ()\<rparr> :: unit response"
  let ?no_list = "\<lparr>ok = False, json = Inl (SyntaxError (str ''Unexpected token''))\<rparr> :: search_body response"
  let ?no_file = "\<lparr>ok = False, json = Inl (SyntaxError (str ''Unexpected token''))\<rparr> :: drive_file response"
  let ?no_item = "\<lparr>ok = False, json = Inr ()\<rparr> :: unit response"
  let ?new = "\<lparr>file_id = str ''7'', file_name = str ''Untitled'', file_mimeType = str ''text/plain''\<rparr>"
  let ?created = "\<lparr>ok = True, json = Inr ?new\<rparr> :: drive_file response"
  have start: "trace example_page = []" "fileInput_files example_page = example_blob # []"
    by (simp_all add: example_page_def)
  have trimmed: "trim (str '' plan.pdf '') = str ''plan.pdf''" "str ''plan.pdf'' \<noteq> []"
    "str ''report'' \<noteq> []"
    by (simp_all add: trim_def str_def isWhiteSpace_def)
  note enc = encoded_report
  note enc' = encoded_report [folded trim_example_page]
  have down: "list_endpoint service_down n req = Resolved ?no_list"
    "upload_endpoint service_down n' req' = Resolved ?no_file"
    "item_endpoint service_down n'' req'' = Resolved ?no_item"
    "upload_endpoint ?half n' req' = Resolved ?created"
    "item_endpoint ?half n'' req'' = Resolved ?no_item"
    "list_endpoint ?stale n req = Resolved ?no_list"
    "item_endpoint ?stale n'' req'' = Resolved ?done"
    for n n' n'' req req' req''
    by (simp_all add: service_down_def service_up_def)
  have bad: "\<not> ok ?no_list" "\<not> ok ?no_file" "\<not> ok ?no_item" "ok ?created" "json ?created = Inr ?new"
    "ok ?done"
    by simp_all
  note all_down = request_failures_notified_once [where CONFIG = example_config and env = service_down
      and t = "str ''report''" and query = ?query and ?w0.0 = example_page and listed = ?no_list
      and ?file = example_blob and created = ?no_file and fileId = "str ''1''"
      and newName = "str ''plan.pdf''" and updated = ?no_item and deleted = ?no_item
      and w = example_page and q = ?query and ?r1.0 = ?no_list and selected = example_blob
      and others = "[]" and ?r2.0 = ?no_file and answer = "str '' plan.pdf ''" and btn = ?btn
      and ?r5.0 = ?no_item and ?r6.0 = ?no_item]
  note half_down = request_failures_notified_once [where CONFIG = example_config and env = ?half
      and w = example_page and selected = example_blob and others = "[]" and ?r3.0 = ?created
      and uploadedFile = ?new and ?r4.0 = ?no_item]
  note stale = request_failures_notified_once [where CONFIG = example_config and env = ?stale
      and w = example_page and q = ?query and answer = "str '' plan.pdf ''" and btn = ?btn
      and ?r7.0 = ?done and ?r8.0 = ?no_list and ?r9.0 = ?done and ?r10.0 = ?no_list]
  have "fst (apiSearchFiles example_config service_down (str ''report'') example_page)
     = Inl (Error (str ''Failed to fetch files.''))"
    using all_down [THEN conjunct1] enc down(1) bad(1) by blast
  moreover have "fst (apiUploadFile example_config service_down example_blob example_page)
     = Inl (Error (str ''Upload failed.''))"
    using all_down [THEN conjunct2, THEN conjunct1] down(2) bad(2) by blast
  moreover have "fst (apiUpdateFile example_config service_down (str ''1'') (str ''plan.pdf'') example_page)
     = Inl (Error (str ''Update failed.''))"
    using all_down [THEN conjunct2, THEN conjunct2, THEN conjunct1] down(3) bad(3) by blast
  moreover have "fst (apiDeleteFile example_config service_down (str ''1'') example_page)
     = Inl (Error (str ''Delete failed.''))"
    using all_down [THEN conjunct2, THEN conjunct2, THEN conjunct2, THEN conjunct1] down(3) bad(3)
    by blast
  moreover have "notices (trace (snd (handleSearch example_config service_down example_page)))
     = [str ''Failed to fetch files.''] \<and>
   errorBox_innerText (snd (handleSearch example_config service_down example_page)) = str ''Failed to fetch files.'' \<and>
   \<not> errorBox_hidden (snd (handleSearch example_config service_down example_page))"
    using all_down [THEN conjunct2, THEN conjunct2, THEN conjunct2, THEN conjunct2, THEN conjunct1]
      enc' down(1) bad(1) trimmed(3) trim_example_page start(1)
    by simp
  moreover have "notices (trace (snd (handleUpload example_config service_down example_page)))
     = [str ''Upload failed.''] \<and>
   errorBox_innerText (snd (handleUpload example_config service_down example_page)) = str ''Upload failed.'' \<and>
   \<not> errorBox_hidden (snd (handleUpload example_config service_down example_page))"
    using all_down [THEN conjunct2, THEN conjunct2, THEN conjunct2, THEN conjunct2, THEN conjunct2,
        THEN conjunct1]
      start down(2) bad(2)
    by simp
  moreover have "notices (trace (snd (handleUpload example_config ?half example_page)))
     = [str ''Update failed.''] \<and>
   errorBox_innerText (snd (handleUpload example_config ?half example_page)) = str ''Update failed.'' \<and>
   \<not> errorBox_hidden (snd (handleUpload example_config ?half example_page))"
    using half_down [THEN conjunct2, THEN conjunct2, THEN conjunct2, THEN conjunct2, THEN conjunct2,
        THEN conjunct2, THEN conjunct1]
      start down(4,5) bad(3,4,5)
    by simp
  moreover have "notices (trace (snd (editBtn_onclick example_config service_down ?btn
       (Some (str '' plan.pdf '')) example_page)))
     = [str ''Update failed.''] \<and>
   errorBox_innerText (snd (editBtn_onclick example_config service_down ?btn
       (Some (str '' plan.pdf '')) example_page)) = str ''Update failed.'' \<and>
   \<not> errorBox_hidden (snd (editBtn_onclick example_config service_down ?btn
       (Some (str '' plan.pdf '')) example_page))"
    using all_down [THEN conjunct2, THEN conjunct2, THEN conjunct2, THEN conjunct2, THEN conjunct2,
        THEN conjunct2, THEN conjunct2, THEN conjunct1]
      start(1) trimmed(1,2) down(3) bad(3)
    by simp
  moreover have "notices (trace (snd (deleteBtn_onclick example_config service_down ?btn
       True example_page)))
     = [str ''Delete failed.''] \<and>
   errorBox_innerText (snd (deleteBtn_onclick example_config service_down ?btn
       True example_page)) = str ''Delete failed.'' \<and>
   \<not> errorBox_hidden (snd (deleteBtn_onclick example_config service_down ?btn
       True example_page))"
    using all_down [THEN conjunct2, THEN conjunct2, THEN conjunct2, THEN conjunct2, THEN conjunct2,
        THEN conjunct2, THEN conjunct2, THEN conjunct2, THEN conjunct1]
      start(1) down(3) bad(3)
    by simp
  moreover have "notices (trace (snd (editBtn_onclick example_config ?stale ?btn
       (Some (str '' plan.pdf '')) example_page)))
     = [str ''Failed to fetch files.''] \<and>
   errorBox_innerText (snd (editBtn_onclick example_config ?stale ?btn
       (Some (str '' plan.pdf '')) example_page)) = str ''Failed to fetch files.'' \<and>
   \<not> errorBox_hidden (snd (editBtn_onclick example_config ?stale ?btn
       (Some (str '' plan.pdf '')) example_page))"
    using stale [THEN conjunct2, THEN conjunct2, THEN conjunct2, THEN conjunct2, THEN conjunct2,
        THEN conjunct2, THEN conjunct2, THEN conjunct2, THEN conjunct2, THEN conjunct1]
      start(1) trimmed down(6,7) bad(1,6) enc' trim_example_page
    by simp
  moreover have "notices (trace (snd (deleteBtn_onclick example_config ?stale ?btn
       True example_page)))
     = [str ''Failed to fetch files.''] \<and>
   errorBox_innerText (snd (deleteBtn_onclick example_config ?stale ?btn
       True example_page)) = str ''Failed to fetch files.'' \<and>
   \<not> errorBox_hidden (snd (deleteBtn_onclick example_config ?stale ?btn
       True example_page))"
    using stale [THEN conjunct2, THEN conjunct2, THEN conjunct2, THEN conjunct2, THEN conjunct2,
        THEN conjunct2, THEN conjunct2, THEN conjunct2, THEN conjunct2, THEN conjunct2]
      start(1) trimmed(3) down(6,7) bad(1,6) enc' trim_example_page
    by simp
  ultimately show ?thesis
    by blast
qed

end
